theory Spec2Isabelle
  imports Complex_Main "HOL-Library.Sublist"
begin

section \<open>The JavaScript values the program computes with\<close>

text \<open>
  The program is TypeScript whose cells are typed \<open>any\<close>. A cell read from a sheet is a
  number, a string, a boolean, \<open>null\<close> or \<open>undefined\<close> (a hole in a row array).

  Numbers: a JavaScript number is an IEEE double. The model keeps the three special values
  (\<open>NaN\<close>, \<open>Infinity\<close>, \<open>-Infinity\<close>) and takes every finite number as the exact rational
  it denotes: rounding, overflow to infinity and the sign of zero are outside the model.
  Strings are lists of bytes; case folding and the character classes of the regular
  expressions are those of ASCII.
\<close>

datatype jsnum = NaN | Fin rat | PosInf | NegInf

datatype jsval = JUndefined | JNull | JBool bool | JNum jsnum | JStr string

fun isNaN :: "jsnum \<Rightarrow> bool" where
  "isNaN NaN = True"
| "isNaN _ = False"

fun num_neg :: "jsnum \<Rightarrow> jsnum" where
  "num_neg NaN = NaN"
| "num_neg (Fin a) = Fin (- a)"
| "num_neg PosInf = NegInf"
| "num_neg NegInf = PosInf"

text \<open>\<open>a + b\<close> on numbers.\<close>
fun num_add :: "jsnum \<Rightarrow> jsnum \<Rightarrow> jsnum" where
  "num_add NaN _ = NaN"
| "num_add _ NaN = NaN"
| "num_add (Fin a) (Fin b) = Fin (a + b)"
| "num_add (Fin a) b = b"
| "num_add PosInf NegInf = NaN"
| "num_add NegInf PosInf = NaN"
| "num_add a _ = a"

definition num_sub :: "jsnum \<Rightarrow> jsnum \<Rightarrow> jsnum" where
  "num_sub a b = num_add a (num_neg b)"

text \<open>The sign of a number that is not \<open>NaN\<close>: \<open>-1\<close>, \<open>0\<close> or \<open>1\<close>.\<close>
fun num_sgn :: "jsnum \<Rightarrow> int" where
  "num_sgn NaN = 0"
| "num_sgn (Fin a) = (if a < 0 then - 1 else if a = 0 then 0 else 1)"
| "num_sgn PosInf = 1"
| "num_sgn NegInf = - 1"

definition inf_of_sign :: "int \<Rightarrow> jsnum" where
  "inf_of_sign s = (if s < 0 then NegInf else PosInf)"

text \<open>\<open>a * b\<close> on numbers: an infinity times zero is \<open>NaN\<close>.\<close>
fun num_mul :: "jsnum \<Rightarrow> jsnum \<Rightarrow> jsnum" where
  "num_mul NaN _ = NaN"
| "num_mul _ NaN = NaN"
| "num_mul (Fin a) (Fin b) = Fin (a * b)"
| "num_mul a b =
     (if num_sgn a * num_sgn b = 0 then NaN else inf_of_sign (num_sgn a * num_sgn b))"

text \<open>
  \<open>a / b\<close> on numbers: \<open>0 / 0\<close> is \<open>NaN\<close>, any other finite number over zero is an
  infinity, a division of two infinities is \<open>NaN\<close>.
\<close>
fun num_div :: "jsnum \<Rightarrow> jsnum \<Rightarrow> jsnum" where
  "num_div NaN _ = NaN"
| "num_div _ NaN = NaN"
| "num_div (Fin a) (Fin b) =
     (if b = 0 then (if a = 0 then NaN else inf_of_sign (num_sgn (Fin a))) else Fin (a / b))"
| "num_div (Fin a) b = Fin 0"
| "num_div a (Fin b) = inf_of_sign (if b < 0 then - num_sgn a else num_sgn a)"
| "num_div a b = NaN"

fun num_less :: "jsnum \<Rightarrow> jsnum \<Rightarrow> bool" where
  "num_less NaN _ = False"
| "num_less _ NaN = False"
| "num_less (Fin a) (Fin b) = (a < b)"
| "num_less NegInf b = (b \<noteq> NegInf)"
| "num_less a PosInf = (a \<noteq> PosInf)"
| "num_less _ _ = False"

definition num_greater :: "jsnum \<Rightarrow> jsnum \<Rightarrow> bool" where
  "num_greater a b = num_less b a"

definition num_le :: "jsnum \<Rightarrow> jsnum \<Rightarrow> bool" where
  "num_le a b = (\<not> isNaN a \<and> \<not> isNaN b \<and> \<not> num_less b a)"

definition num_ge :: "jsnum \<Rightarrow> jsnum \<Rightarrow> bool" where
  "num_ge a b = num_le b a"

text \<open>\<open>Math.floor\<close>.\<close>
fun Math_floor :: "jsnum \<Rightarrow> jsnum" where
  "Math_floor (Fin a) = Fin (of_int \<lfloor>a\<rfloor>)"
| "Math_floor a = a"

text \<open>\<open>Math.min(a, b)\<close> and \<open>Math.max(a, b)\<close>: \<open>NaN\<close> as soon as one argument is.\<close>
definition Math_min2 :: "jsnum \<Rightarrow> jsnum \<Rightarrow> jsnum" where
  "Math_min2 a b = (if isNaN a \<or> isNaN b then NaN else if num_less b a then b else a)"

definition Math_max2 :: "jsnum \<Rightarrow> jsnum \<Rightarrow> jsnum" where
  "Math_max2 a b = (if isNaN a \<or> isNaN b then NaN else if num_less a b then b else a)"

text \<open>\<open>Math.min(...values)\<close> and \<open>Math.max(...values)\<close>; of no argument they are
  \<open>Infinity\<close> and \<open>-Infinity\<close>.\<close>
definition Math_min :: "jsnum list \<Rightarrow> jsnum" where
  "Math_min vs = foldl Math_min2 PosInf vs"

definition Math_max :: "jsnum list \<Rightarrow> jsnum" where
  "Math_max vs = foldl Math_max2 NegInf vs"

text \<open>The length of an array, as a number.\<close>
definition num_of_nat :: "nat \<Rightarrow> jsnum" where
  "num_of_nat n = Fin (of_nat n)"

subsection \<open>Strings\<close>

definition lowerChar :: "char \<Rightarrow> char" where
  "lowerChar c =
     (case map_of (zip ''ABCDEFGHIJKLMNOPQRSTUVWXYZ'' ''abcdefghijklmnopqrstuvwxyz'') c of
        Some d \<Rightarrow> d
      | None \<Rightarrow> c)"

definition toLowerCase :: "string \<Rightarrow> string" where
  "toLowerCase s = map lowerChar s"

fun startsWith :: "string \<Rightarrow> string \<Rightarrow> bool" where
  "startsWith s [] = True"
| "startsWith [] (p # ps) = False"
| "startsWith (c # cs) (p # ps) = (c = p \<and> startsWith cs ps)"

text \<open>\<open>s.includes(sub)\<close>: \<open>sub\<close> occurs in \<open>s\<close> as a contiguous substring.\<close>
fun includesStr :: "string \<Rightarrow> string \<Rightarrow> bool" where
  "includesStr [] sub = (sub = [])"
| "includesStr (c # cs) sub = (startsWith (c # cs) sub \<or> includesStr cs sub)"

definition isDigit :: "char \<Rightarrow> bool" where
  "isDigit c = (c \<in> set ''0123456789'')"

definition isWhiteSpace :: "char \<Rightarrow> bool" where
  "isWhiteSpace c = (c \<in> set [CHR '' '', CHR 0x09, CHR 0x0A, CHR 0x0B, CHR 0x0C, CHR 0x0D])"

text \<open>The value of a hexadecimal digit (of a decimal, octal or binary one too), if it is one.\<close>
definition digitValue :: "char \<Rightarrow> nat option" where
  "digitValue c =
     map_of (zip ''0123456789abcdefABCDEF''
       [0, 1, 2, 3, 4, 5, 6, 7, 8, 9, 10, 11, 12, 13, 14, 15, 10, 11, 12, 13, 14, 15]) c"

definition digitsIn :: "nat \<Rightarrow> string \<Rightarrow> bool" where
  "digitsIn radix s =
     (s \<noteq> [] \<and> list_all (\<lambda>c. case digitValue c of Some d \<Rightarrow> d < radix | None \<Rightarrow> False) s)"

definition digitsValue :: "nat \<Rightarrow> string \<Rightarrow> nat" where
  "digitsValue radix s = foldl (\<lambda>a c. radix * a + (case digitValue c of Some d \<Rightarrow> d | None \<Rightarrow> 0)) 0 s"

definition trim :: "string \<Rightarrow> string" where
  "trim s = rev (dropWhile isWhiteSpace (rev (dropWhile isWhiteSpace s)))"

text \<open>A power of ten with an integer exponent.\<close>
definition pow10 :: "int \<Rightarrow> rat" where
  "pow10 e = (if 0 \<le> e then 10 ^ nat e else 1 / 10 ^ nat (- e))"

text \<open>
  The exponent part of a decimal literal: nothing, or \<open>e\<close> or \<open>E\<close>, an optional sign and
  at least one digit. \<open>None\<close> when the text is not one.
\<close>
definition exponentPart :: "string \<Rightarrow> int option" where
  "exponentPart s =
     (case s of
        [] \<Rightarrow> Some 0
      | c # r \<Rightarrow>
          if c = CHR ''e'' \<or> c = CHR ''E'' then
            (case r of
               [] \<Rightarrow> None
             | d # r' \<Rightarrow>
                 if d = CHR ''-'' then
                   (if digitsIn 10 r' then Some (- int (digitsValue 10 r')) else None)
                 else if d = CHR ''+'' then
                   (if digitsIn 10 r' then Some (int (digitsValue 10 r')) else None)
                 else (if digitsIn 10 r then Some (int (digitsValue 10 r)) else None))
          else None)"

text \<open>An unsigned decimal literal: \<open>Infinity\<close>, \<open>12\<close>, \<open>12.\<close>, \<open>12.5\<close>, \<open>.5\<close>, each of the
  last four with an optional exponent.\<close>
definition unsignedDecimal :: "string \<Rightarrow> jsnum" where
  "unsignedDecimal s =
     (if s = ''Infinity'' then PosInf
      else
        let ip = takeWhile isDigit s;
            r1 = dropWhile isDigit s;
            dot = (r1 \<noteq> [] \<and> hd r1 = CHR ''.'');
            fp = (if dot then takeWhile isDigit (tl r1) else []);
            r2 = (if dot then dropWhile isDigit (tl r1) else r1)
        in if ip = [] \<and> fp = [] then NaN
           else (case exponentPart r2 of
                   None \<Rightarrow> NaN
                 | Some e \<Rightarrow>
                     Fin (of_nat (digitsValue 10 (ip @ fp)) * pow10 (e - int (length fp)))))"

text \<open>
  \<open>Number(s)\<close> of a string: white space is trimmed; the empty string is \<open>0\<close>; a
  hexadecimal, octal or binary literal takes no sign; anything that is no numeric literal
  is \<open>NaN\<close>.
\<close>
definition StringToNumber :: "string \<Rightarrow> jsnum" where
  "StringToNumber s =
     (let t = trim s in
      if t = [] then Fin 0
      else if startsWith t ''0x'' \<or> startsWith t ''0X'' then
        (if digitsIn 16 (drop 2 t) then Fin (of_nat (digitsValue 16 (drop 2 t))) else NaN)
      else if startsWith t ''0o'' \<or> startsWith t ''0O'' then
        (if digitsIn 8 (drop 2 t) then Fin (of_nat (digitsValue 8 (drop 2 t))) else NaN)
      else if startsWith t ''0b'' \<or> startsWith t ''0B'' then
        (if digitsIn 2 (drop 2 t) then Fin (of_nat (digitsValue 2 (drop 2 t))) else NaN)
      else if hd t = CHR ''-'' then num_neg (unsignedDecimal (tl t))
      else if hd t = CHR ''+'' then unsignedDecimal (tl t)
      else unsignedDecimal t)"

text \<open>\<open>Number(v)\<close>.\<close>
fun Number :: "jsval \<Rightarrow> jsnum" where
  "Number JUndefined = NaN"
| "Number JNull = Fin 0"
| "Number (JBool b) = Fin (if b then 1 else 0)"
| "Number (JNum n) = n"
| "Number (JStr s) = StringToNumber s"

definition digitChar :: "nat \<Rightarrow> char" where
  "digitChar d = ''0123456789'' ! (d mod 10)"

text \<open>The decimal digits of a natural number, most significant first.\<close>
function natToString :: "nat \<Rightarrow> string" where
  "natToString n = (if n < 10 then [digitChar n] else natToString (n div 10) @ [digitChar n])"
  by pat_completeness auto
termination
  by (relation "measure id") auto

declare natToString.simps [simp del]

text \<open>For \<open>0 < x < 1\<close>: how many times \<open>x\<close> is multiplied by ten before it reaches \<open>1\<close>
  (at most the fuel).\<close>
fun leadingExp :: "nat \<Rightarrow> rat \<Rightarrow> nat" where
  "leadingExp 0 x = 0"
| "leadingExp (Suc f) x = (if 1 \<le> x then 0 else Suc (leadingExp f (x * 10)))"

text \<open>The significant digits of \<open>y\<close> with \<open>1 \<le> y < 10\<close>, at most the fuel.\<close>
fun sigDigits :: "nat \<Rightarrow> rat \<Rightarrow> string" where
  "sigDigits 0 y = []"
| "sigDigits (Suc f) y =
     (let d = nat \<lfloor>y\<rfloor> in
      digitChar d # (if y = of_nat d then [] else sigDigits f ((y - of_nat d) * 10)))"

text \<open>
  \<open>String(x)\<close> of a positive finite number, after the language's \<open>Number::toString\<close>:
  with \<open>n\<close> the decimal exponent (\<open>10^(n-1) \<le> x < 10^n\<close>) and \<open>k\<close> the number of
  significant digits, the digits are printed plainly for \<open>-6 < n \<le> 21\<close> and with an
  exponent otherwise. JavaScript prints the shortest decimal that reads back as the same
  double, which has at most 17 digits; the model prints the exact expansion of the
  rational, cut after 17 significant digits.
\<close>
definition positiveToString :: "rat \<Rightarrow> string" where
  "positiveToString x =
     (let n = (if 1 \<le> x then int (length (natToString (nat \<lfloor>x\<rfloor>)))
               else 1 - int (leadingExp 400 x));
          ds = sigDigits 17 (x / pow10 (n - 1));
          k = int (length ds)
      in if k \<le> n \<and> n \<le> 21 then ds @ replicate (nat (n - k)) CHR ''0''
         else if 0 < n \<and> n \<le> 21 then take (nat n) ds @ ''.'' @ drop (nat n) ds
         else if - 6 < n \<and> n \<le> 0 then ''0.'' @ replicate (nat (- n)) CHR ''0'' @ ds
         else
           (if k = 1 then ds else take 1 ds @ ''.'' @ drop 1 ds)
             @ ''e'' @ (if n - 1 < 0 then ''-'' else ''+'') @ natToString (nat \<bar>n - 1\<bar>))"

text \<open>\<open>String(x)\<close> of a number, also what a template literal prints for it.\<close>
fun numberToString :: "jsnum \<Rightarrow> string" where
  "numberToString NaN = ''NaN''"
| "numberToString PosInf = ''Infinity''"
| "numberToString NegInf = ''-Infinity''"
| "numberToString (Fin x) =
     (if x = 0 then ''0''
      else if x < 0 then ''-'' @ positiveToString (- x)
      else positiveToString x)"

text \<open>\<open>String(v)\<close>.\<close>
fun String :: "jsval \<Rightarrow> string" where
  "String JUndefined = ''undefined''"
| "String JNull = ''null''"
| "String (JBool b) = (if b then ''true'' else ''false'')"
| "String (JNum n) = numberToString n"
| "String (JStr s) = s"

text \<open>
  \<open>x.toFixed(f)\<close>: a number that is not finite prints as \<open>String\<close> does; otherwise the
  sign, then the integer \<open>n\<close> nearest to \<open>x * 10^f\<close> (the larger one of two) printed with
  \<open>f\<close> digits after the point.
\<close>
definition toFixed :: "jsnum \<Rightarrow> nat \<Rightarrow> string" where
  "toFixed x f =
     (case x of
        Fin r \<Rightarrow>
          (let a = \<bar>r\<bar>;
               m = (if 10 ^ 21 \<le> a then numberToString (Fin a)
                    else
                      let ds = natToString (nat \<lfloor>a * 10 ^ f + 1 / 2\<rfloor>);
                          ds' = replicate (Suc f - length ds) CHR ''0'' @ ds
                      in if f = 0 then ds'
                         else take (length ds' - f) ds' @ ''.'' @ drop (length ds' - f) ds')
           in (if r < 0 then ''-'' else '''') @ m)
      | _ \<Rightarrow> numberToString x)"

text \<open>A value is falsy when \<open>v || w\<close> evaluates to \<open>w\<close>.\<close>
fun falsy :: "jsval \<Rightarrow> bool" where
  "falsy JUndefined = True"
| "falsy JNull = True"
| "falsy (JBool b) = (\<not> b)"
| "falsy (JNum n) = (n = NaN \<or> n = Fin 0)"
| "falsy (JStr s) = (s = [])"

text \<open>\<open>v || w\<close>.\<close>
definition js_or :: "jsval \<Rightarrow> jsval \<Rightarrow> jsval" where
  "js_or v w = (if falsy v then w else v)"

text \<open>\<open>v != null\<close> is false for \<open>null\<close> and for \<open>undefined\<close>.\<close>
fun nullish :: "jsval \<Rightarrow> bool" where
  "nullish JUndefined = True"
| "nullish JNull = True"
| "nullish _ = False"

text \<open>\<open>row[i]\<close> on an array: \<open>undefined\<close> past its end.\<close>
definition cell :: "jsval list \<Rightarrow> nat \<Rightarrow> jsval" where
  "cell row i = (if i < length row then row ! i else JUndefined)"

text \<open>\<open>parts.join(sep)\<close>.\<close>
fun join :: "string \<Rightarrow> string list \<Rightarrow> string" where
  "join sep [] = []"
| "join sep [x] = x"
| "join sep (x # y # ys) = x @ sep @ join sep (y # ys)"

section \<open>The data model (types.ts)\<close>

datatype coltype = TNumber | TString | TBoolean | TDate

record DataColumn =
  name :: string
  type :: coltype
  "values" :: "jsval list"

text \<open>A row-record maps a column name to a cell.\<close>
type_synonym rowrec = "string \<rightharpoonup> jsval"

record DataSet =
  columns :: "DataColumn list"
  rows :: "rowrec list"
  fileName :: string

section \<open>Ingestion (excelProcessor.ts)\<close>

text \<open>
  \<open>Date.parse\<close> accepts formats that each engine defines for itself, so the type inferrer
  takes it as a parameter \<open>Date_parse\<close>, from the string form of a value to a time stamp
  or \<open>NaN\<close>.
\<close>

definition numericValue :: "jsval \<Rightarrow> bool" where
  "numericValue val = (\<not> isNaN (Number val) \<and> val \<noteq> JStr '''')"

definition booleanValue :: "jsval \<Rightarrow> bool" where
  "booleanValue val =
     (case val of
        JBool b \<Rightarrow> True
      | JStr s \<Rightarrow> toLowerCase s \<in> set [''true'', ''false'', ''yes'', ''no'', ''1'', ''0'']
      | _ \<Rightarrow> False)"

definition dateValue :: "(string \<Rightarrow> jsnum) \<Rightarrow> jsval \<Rightarrow> bool" where
  "dateValue Date_parse val = (\<not> isNaN (Date_parse (String val)))"

text \<open>\<open>count > values.length * 0.8\<close>, on exact numbers.\<close>
definition over80 :: "nat \<Rightarrow> nat \<Rightarrow> bool" where
  "over80 count len = ((of_nat count :: rat) > of_nat len * 0.8)"

definition inferType :: "(string \<Rightarrow> jsnum) \<Rightarrow> jsval list \<Rightarrow> coltype" where
  "inferType Date_parse vals =
     (if length vals = 0 then TString
      else
        let numericValues = filter numericValue vals in
        if over80 (length numericValues) (length vals) then TNumber
        else
          let booleanValues = filter booleanValue vals in
          if over80 (length booleanValues) (length vals) then TBoolean
          else
            let dateValues = filter (dateValue Date_parse) vals in
            if over80 (length dateValues) (length vals) then TDate
            else TString)"

definition inferColumnTypes ::
  "(string \<Rightarrow> jsnum) \<Rightarrow> string list \<Rightarrow> jsval list list \<Rightarrow> DataColumn list" where
  "inferColumnTypes Date_parse headers dataRows =
     map (\<lambda>(colIndex, header).
            let vals = filter (\<lambda>val. \<not> nullish val) (map (\<lambda>row. cell row colIndex) dataRows)
            in \<lparr>name = header, type = inferType Date_parse vals, values = vals\<rparr>)
         (enumerate 0 headers)"

text \<open>The row-record of one data row: \<open>rowObj[header] = row[index] || null\<close> for each
  header in turn.\<close>
definition rowObject :: "string list \<Rightarrow> jsval list \<Rightarrow> rowrec" where
  "rowObject headers row =
     foldl (\<lambda>rowObj (index, header). rowObj(header \<mapsto> js_or (cell row index) JNull))
       Map.empty (enumerate 0 headers)"

text \<open>
  \<open>processFile\<close> from the decoded sheet on (\<open>jsonData\<close>, the array of rows that the
  spreadsheet library returns; reading and decoding the file are the library's). The code
  reads row 0 as \<open>string[]\<close> by a cast and the rows after it as arrays of cells. The model
  gives the sheet these types: it has no row at all, or a header row of strings and data
  rows of cells. A header row with a blank cell (a hole of the array) or with a cell that
  is not a string is outside the model. A sheet with no row is the rejection
  \<open>Failed to process Excel file: Empty Excel file\<close>.
\<close>
datatype sheet = NoRows | Rows "string list" "jsval list list"

definition processFile ::
  "(string \<Rightarrow> jsnum) \<Rightarrow> string \<Rightarrow> sheet \<Rightarrow> string + DataSet" where
  "processFile Date_parse file_name jsonData =
     (case jsonData of
        NoRows \<Rightarrow> Inl ''Failed to process Excel file: Empty Excel file''
      | Rows headers dataRows \<Rightarrow>
          let cols = inferColumnTypes Date_parse headers dataRows;
              rowObjs = map (rowObject headers) dataRows
          in Inr \<lparr>columns = cols, rows = rowObjs, fileName = file_name\<rparr>)"

section \<open>The query engine (queryProcessor.ts)\<close>

datatype chartkind = Bar | Line | Pie | Area

text \<open>One entry of a chart's \<open>data\<close>: \<open>{name, count, value}\<close>, with \<open>average\<close> in a grouped
  analysis.\<close>
record ChartPoint =
  pt_name :: string
  pt_count :: nat
  pt_average :: "jsnum option"
  pt_value :: jsnum

record ChartData =
  chart_type :: chartkind
  data :: "ChartPoint list"
  xKey :: string
  yKey :: string
  chart_title :: string

record TableData =
  headers :: "string list"
  table_rows :: "jsval list list"
  title :: string

datatype resultkind = TextResult | ChartResult | TableResult

record QueryResult =
  result_type :: resultkind
  content :: string
  chart :: "ChartData option"
  table :: "TableData option"

record Condition =
  column :: string
  operator :: string
  cond_value :: jsval

text \<open>
  The object: its one field is the dataset. A method takes the object and returns its
  result together with the object as the call leaves it.
\<close>
record QueryProcessor =
  dataset :: DataSet

text \<open>\<open>{type: 'text', content}\<close>.\<close>
definition textResult :: "string \<Rightarrow> QueryResult" where
  "textResult c = \<lparr>result_type = TextResult, content = c, chart = None, table = None\<rparr>"

text \<open>\<open>row[key]\<close> on a row-record: \<open>undefined\<close> for a key it does not have.\<close>
definition getProp :: "rowrec \<Rightarrow> string \<Rightarrow> jsval" where
  "getProp row key = (case row key of None \<Rightarrow> JUndefined | Some v \<Rightarrow> v)"

text \<open>\<open>values.map(v => Number(v)).filter(v => !isNaN(v))\<close>.\<close>
definition coerced :: "jsval list \<Rightarrow> jsnum list" where
  "coerced vs = filter (\<lambda>v. \<not> isNaN v) (map Number vs)"

text \<open>\<open>values.reduce((a, b) => a + b, 0)\<close>.\<close>
definition sumOf :: "jsnum list \<Rightarrow> jsnum" where
  "sumOf vs = foldl num_add (Fin 0) vs"

definition newline :: string where
  "newline = [CHR 0x0A]"

subsection \<open>The three regular expressions of the condition extractor\<close>

text \<open>
  \<open>/(\w+)\s*(>|<|=|>=|<=)\s*(\w+)/g\<close>, \<open>/(\w+)\s+is\s+(\w+)/g\<close> and
  \<open>/(\w+)\s+equals?\s+(\w+)/g\<close>. In each of them a greedy repetition is followed by
  something that cannot start with a character of the repeated class, so giving characters
  back never helps and a match at a position takes the longest run of each class; the
  alternatives of the operator are tried in the order written, the first one after which
  the rest matches being taken.
\<close>

datatype pattern = ComparisonPattern | IsPattern | EqualsPattern

definition isWordChar :: "char \<Rightarrow> bool" where
  "isWordChar c =
     (c \<in> set ''abcdefghijklmnopqrstuvwxyzABCDEFGHIJKLMNOPQRSTUVWXYZ0123456789_'')"

text \<open>\<open>(\w+)\<close>: the captured word and what follows it.\<close>
definition word :: "string \<Rightarrow> (string \<times> string) option" where
  "word s =
     (if takeWhile isWordChar s = [] then None
      else Some (takeWhile isWordChar s, dropWhile isWordChar s))"

text \<open>\<open>\s+\<close>: what follows the white space.\<close>
definition spaces1 :: "string \<Rightarrow> string option" where
  "spaces1 s = (if takeWhile isWhiteSpace s = [] then None else Some (dropWhile isWhiteSpace s))"

text \<open>A literal text: what follows it.\<close>
definition literal :: "string \<Rightarrow> string \<Rightarrow> string option" where
  "literal lit s = (if startsWith s lit then Some (drop (length lit) s) else None)"

text \<open>\<open>(op1|op2|...)\s*(\w+)\<close>: the operator, the captured word and what follows.\<close>
fun firstAlternative :: "string list \<Rightarrow> string \<Rightarrow> (string \<times> string \<times> string) option" where
  "firstAlternative [] s = None"
| "firstAlternative (alt # alts) s =
     (case (case literal alt s of
              None \<Rightarrow> None
            | Some r \<Rightarrow> word (dropWhile isWhiteSpace r)) of
        Some (v, rest) \<Rightarrow> Some (alt, v, rest)
      | None \<Rightarrow> firstAlternative alts s)"

text \<open>A match of a pattern that starts at the head of \<open>s\<close>: the captured groups and what
  follows the match.\<close>
fun matchAt :: "pattern \<Rightarrow> string \<Rightarrow> (string list \<times> string) option" where
  "matchAt ComparisonPattern s =
     (case word s of
        None \<Rightarrow> None
      | Some (col, r1) \<Rightarrow>
          (case firstAlternative [''>'', ''<'', ''='', ''>='', ''<=''] (dropWhile isWhiteSpace r1) of
             None \<Rightarrow> None
           | Some (opr, v, rest) \<Rightarrow> Some ([col, opr, v], rest)))"
| "matchAt IsPattern s =
     (case word s of
        None \<Rightarrow> None
      | Some (col, r1) \<Rightarrow>
          (case spaces1 r1 of
             None \<Rightarrow> None
           | Some r2 \<Rightarrow>
               (case literal ''is'' r2 of
                  None \<Rightarrow> None
                | Some r3 \<Rightarrow>
                    (case spaces1 r3 of
                       None \<Rightarrow> None
                     | Some r4 \<Rightarrow>
                         (case word r4 of
                            None \<Rightarrow> None
                          | Some (v, rest) \<Rightarrow> Some ([col, v], rest))))))"
| "matchAt EqualsPattern s =
     (case word s of
        None \<Rightarrow> None
      | Some (col, r1) \<Rightarrow>
          (case spaces1 r1 of
             None \<Rightarrow> None
           | Some r2 \<Rightarrow>
               (case literal ''equal'' r2 of
                  None \<Rightarrow> None
                | Some r3 \<Rightarrow>
                    (case spaces1 (if startsWith r3 ''s'' then drop 1 r3 else r3) of
                       None \<Rightarrow> None
                     | Some r4 \<Rightarrow>
                         (case word r4 of
                            None \<Rightarrow> None
                          | Some (v, rest) \<Rightarrow> Some ([col, v], rest))))))"

text \<open>
  \<open>pattern.exec(s)\<close> from the position where \<open>s\<close> starts: the leftmost position at which
  the pattern matches. The result is the match array (the matched text, then the groups)
  and the text after the match, where the next \<open>exec\<close> resumes (\<open>lastIndex\<close>).
\<close>
fun exec :: "pattern \<Rightarrow> string \<Rightarrow> (jsval list \<times> string) option" where
  "exec p [] = None"
| "exec p (c # cs) =
     (case matchAt p (c # cs) of
        Some (groups, rest) \<Rightarrow>
          Some (JStr (take (length (c # cs) - length rest) (c # cs)) # map JStr groups, rest)
      | None \<Rightarrow> exec p cs)"

lemma word_shorter: "word s = Some (w, r) \<Longrightarrow> length r < length s"
proof -
  assume h: "word s = Some (w, r)"
  then have w: "takeWhile isWordChar s \<noteq> []" and r: "r = dropWhile isWordChar s"
    by (auto simp: word_def split: if_splits)
  have "length (takeWhile isWordChar s) + length (dropWhile isWordChar s) = length s"
    by (metis length_append takeWhile_dropWhile_id)
  with w r show ?thesis by (cases "takeWhile isWordChar s") auto
qed

lemma spaces1_shorter: "spaces1 s = Some r \<Longrightarrow> length r \<le> length s"
  by (auto simp: spaces1_def length_dropWhile_le split: if_splits)

lemma literal_shorter: "literal lit s = Some r \<Longrightarrow> length r \<le> length s"
  by (auto simp: literal_def split: if_splits)

lemma firstAlternative_shorter:
  "firstAlternative alts s = Some (a, v, r) \<Longrightarrow> length r < length s"
proof (induction alts)
  case Nil
  then show ?case by simp
next
  case (Cons alt alts)
  show ?case
  proof (cases "case literal alt s of None \<Rightarrow> None | Some r \<Rightarrow> word (dropWhile isWhiteSpace r)")
    case None
    with Cons show ?thesis by simp
  next
    case (Some vr)
    obtain v' r' where vr: "vr = (v', r')" by (cases vr)
    from Some vr obtain r0 where l: "literal alt s = Some r0"
      and w: "word (dropWhile isWhiteSpace r0) = Some (v', r')"
      by (auto split: option.splits)
    have "length r' < length (dropWhile isWhiteSpace r0)" using w by (rule word_shorter)
    also have "\<dots> \<le> length r0" by (rule length_dropWhile_le)
    also have "\<dots> \<le> length s" using l by (rule literal_shorter)
    finally have "length r' < length s" .
    moreover from Cons.prems Some vr have "r = r'" by simp
    ultimately show ?thesis by simp
  qed
qed

lemma matchAt_shorter: "matchAt p s = Some (groups, rest) \<Longrightarrow> length rest < length s"
proof (cases p)
  case ComparisonPattern
  assume m: "matchAt p s = Some (groups, rest)"
  with ComparisonPattern obtain col r1 opr v where w: "word s = Some (col, r1)"
    and f: "firstAlternative [''>'', ''<'', ''='', ''>='', ''<='']
              (dropWhile isWhiteSpace r1) = Some (opr, v, rest)"
    by (auto split: option.splits)
  have "length rest < length (dropWhile isWhiteSpace r1)"
    using f by (rule firstAlternative_shorter)
  also have "\<dots> \<le> length r1" by (rule length_dropWhile_le)
  also have "\<dots> \<le> length s" using word_shorter [OF w] by simp
  finally show ?thesis .
next
  case IsPattern
  assume m: "matchAt p s = Some (groups, rest)"
  with IsPattern obtain col r1 r2 r3 r4 v where w: "word s = Some (col, r1)"
    and s1: "spaces1 r1 = Some r2" and l: "literal ''is'' r2 = Some r3"
    and s2: "spaces1 r3 = Some r4" and w2: "word r4 = Some (v, rest)"
    by (auto split: option.splits)
  from word_shorter [OF w2] spaces1_shorter [OF s2] literal_shorter [OF l]
    spaces1_shorter [OF s1] word_shorter [OF w]
  show ?thesis by linarith
next
  case EqualsPattern
  assume m: "matchAt p s = Some (groups, rest)"
  with EqualsPattern obtain col r1 r2 r3 r4 v where w: "word s = Some (col, r1)"
    and s1: "spaces1 r1 = Some r2" and l: "literal ''equal'' r2 = Some r3"
    and s2: "spaces1 (if startsWith r3 ''s'' then drop 1 r3 else r3) = Some r4"
    and w2: "word r4 = Some (v, rest)"
    by (auto split: option.splits)
  have "length (if startsWith r3 ''s'' then drop 1 r3 else r3) \<le> length r3" by simp
  with word_shorter [OF w2] spaces1_shorter [OF s2] literal_shorter [OF l]
    spaces1_shorter [OF s1] word_shorter [OF w]
  show ?thesis by linarith
qed

lemma exec_shorter: "exec p s = Some (m, rest) \<Longrightarrow> length rest < length s"
proof (induction s)
  case Nil
  then show ?case by simp
next
  case (Cons c cs)
  show ?case
  proof (cases "matchAt p (c # cs)")
    case None
    with Cons show ?thesis by fastforce
  next
    case (Some gr)
    obtain g r where "gr = (g, r)" by (cases gr)
    with Some Cons.prems matchAt_shorter [of p "c # cs" g r] show ?thesis by simp
  qed
qed

text \<open>
  \<open>while ((match = pattern.exec(s)) !== null) ...\<close>: the matches of a pattern in turn,
  each search resuming after the previous match. No pattern matches the empty text, so
  every round moves on and the loop ends.
\<close>
function matchLoop :: "pattern \<Rightarrow> string \<Rightarrow> jsval list list" where
  "matchLoop p s =
     (case exec p s of
        None \<Rightarrow> []
      | Some (m, rest) \<Rightarrow> m # matchLoop p rest)"
  by pat_completeness auto
termination
  by (relation "measure (\<lambda>(p, s). length s)") (auto dest: exec_shorter)

declare matchLoop.simps [simp del]

subsection \<open>Conditions\<close>

text \<open>
  The body of the extraction loop for one match array:
  \<open>const [, column, operator, value] = match\<close>, then the column lookup and the push.
  \<open>None\<close> when no column matches (nothing is pushed).
\<close>
definition conditionOfMatch :: "QueryProcessor \<Rightarrow> jsval list \<Rightarrow> Condition option" where
  "conditionOfMatch this m =
     (let col_text = String (cell m 1);
          opr = cell m 2;
          val = cell m 3;
          matchingColumn =
            find (\<lambda>col. includesStr (toLowerCase (name col)) col_text
                        \<or> includesStr col_text (toLowerCase (name col)))
              (columns (dataset this))
      in case matchingColumn of
           None \<Rightarrow> None
         | Some mc \<Rightarrow>
             Some \<lparr>column = name mc,
                   operator = String (js_or opr (JStr ''='')),
                   cond_value = (if type mc = TNumber then JNum (Number val) else val)\<rparr>)"

definition extractConditions :: "QueryProcessor \<Rightarrow> string \<Rightarrow> Condition list \<times> QueryProcessor" where
  "extractConditions this query =
     (let patterns = [ComparisonPattern, IsPattern, EqualsPattern];
          conditions =
            concat (map (\<lambda>p. List.map_filter (conditionOfMatch this)
                                (matchLoop p (toLowerCase query))) patterns)
      in (conditions, this))"

text \<open>The test of one condition on one row: the \<open>switch\<close> of \<open>applyFilters\<close>.\<close>
definition conditionHolds :: "rowrec \<Rightarrow> Condition \<Rightarrow> bool" where
  "conditionHolds row condition =
     (let cellValue = getProp row (column condition);
          filterValue = cond_value condition
      in if operator condition = ''>'' then num_greater (Number cellValue) (Number filterValue)
         else if operator condition = ''<'' then num_less (Number cellValue) (Number filterValue)
         else if operator condition = ''>='' then num_ge (Number cellValue) (Number filterValue)
         else if operator condition = ''<='' then num_le (Number cellValue) (Number filterValue)
         else includesStr (toLowerCase (String cellValue)) (toLowerCase (String filterValue)))"

definition applyFilters :: "QueryProcessor \<Rightarrow> Condition list \<Rightarrow> rowrec list \<times> QueryProcessor" where
  "applyFilters this conditions =
     (filter (\<lambda>row. list_all (conditionHolds row) conditions) (rows (dataset this)), this)"

subsection \<open>Objects used as dictionaries\<close>

text \<open>
  \<open>counts\<close>, \<open>bins\<close> and \<open>groups\<close> are objects filled key by key: a list of entries in the
  order the keys were first written. \<open>Object.entries\<close> lists the keys that are array indices
  first, in ascending order, then the other keys in the order they were written.
  A key that names a property every object inherits (\<open>constructor\<close>, \<open>toString\<close>, ...) is
  outside the model, here and in the row-records.
\<close>

text \<open>\<open>counts[key] = (counts[key] || 0) + 1\<close>.\<close>
fun addCount :: "string \<Rightarrow> (string \<times> nat) list \<Rightarrow> (string \<times> nat) list" where
  "addCount key [] = [(key, 1)]"
| "addCount key ((k, n) # kvs) =
     (if k = key then (k, n + 1) # kvs else (k, n) # addCount key kvs)"

text \<open>\<open>if (!groups[key]) groups[key] = []; groups[key].push(row)\<close>.\<close>
fun pushGroup :: "string \<Rightarrow> 'a \<Rightarrow> (string \<times> 'a list) list \<Rightarrow> (string \<times> 'a list) list" where
  "pushGroup key row [] = [(key, [row])]"
| "pushGroup key row ((k, rs) # kvs) =
     (if k = key then (k, rs @ [row]) # kvs else (k, rs) # pushGroup key row kvs)"

definition isArrayIndex :: "string \<Rightarrow> bool" where
  "isArrayIndex k =
     (k \<noteq> [] \<and> list_all isDigit k \<and> (k = ''0'' \<or> hd k \<noteq> CHR ''0'')
      \<and> digitsValue 10 k < 2 ^ 32 - 1)"

definition Object_entries :: "(string \<times> 'a) list \<Rightarrow> (string \<times> 'a) list" where
  "Object_entries obj =
     sort_key (\<lambda>(k, v). digitsValue 10 k) (filter (\<lambda>(k, v). isArrayIndex k) obj)
       @ filter (\<lambda>(k, v). \<not> isArrayIndex k) obj"

subsection \<open>Charts\<close>

definition createDistributionChart ::
  "QueryProcessor \<Rightarrow> string \<Rightarrow> chartkind \<Rightarrow> QueryResult \<times> QueryProcessor" where
  "createDistributionChart this columnName chartType =
     (case find (\<lambda>col. name col = columnName) (columns (dataset this)) of
        None \<Rightarrow> (textResult (''Column '' @ columnName @ '' not found.''), this)
      | Some col \<Rightarrow>
          let counts =
                foldl (\<lambda>counts val. addCount (String (js_or val (JStr ''Unknown''))) counts)
                  [] (values col);
              points =
                map (\<lambda>(nm, cnt). \<lparr>pt_name = nm, pt_count = cnt, pt_average = None,
                                    pt_value = num_of_nat cnt\<rparr>)
                  (Object_entries counts)
          in (\<lparr>result_type = ChartResult,
               content = ''Distribution of '' @ columnName @ '':'',
               chart = Some \<lparr>chart_type = chartType, data = points, xKey = ''name'',
                             yKey = ''count'', chart_title = columnName @ '' Distribution''\<rparr>,
               table = None\<rparr>, this))"

text \<open>The bin of one value in the histogram: its index and its label.\<close>
definition binIndex :: "jsnum \<Rightarrow> jsnum \<Rightarrow> jsnum \<Rightarrow> jsnum" where
  "binIndex mn binSize val =
     Math_min2 (Math_floor (num_div (num_sub val mn) binSize)) (num_sub (Fin 10) (Fin 1))"

definition binLabel :: "jsnum \<Rightarrow> jsnum \<Rightarrow> jsnum \<Rightarrow> string" where
  "binLabel mn binSize val =
     (let binStart = num_add mn (num_mul (binIndex mn binSize val) binSize);
          binEnd = num_add binStart binSize
      in toFixed binStart 1 @ ''-'' @ toFixed binEnd 1)"

definition createNumericChart ::
  "QueryProcessor \<Rightarrow> string \<Rightarrow> chartkind \<Rightarrow> QueryResult \<times> QueryProcessor" where
  "createNumericChart this columnName chartType =
     (case find (\<lambda>col. name col = columnName) (columns (dataset this)) of
        None \<Rightarrow> (textResult (''Column '' @ columnName @ '' not found.''), this)
      | Some col \<Rightarrow>
          let vals = coerced (values col);
              mn = Math_min vals;
              mx = Math_max vals;
              binCount = Fin 10;
              binSize = num_div (num_sub mx mn) binCount;
              bins = foldl (\<lambda>bins val. addCount (binLabel mn binSize val) bins) [] vals;
              points =
                map (\<lambda>(range, cnt). \<lparr>pt_name = range, pt_count = cnt, pt_average = None,
                                       pt_value = num_of_nat cnt\<rparr>)
                  (Object_entries bins)
          in (\<lparr>result_type = ChartResult,
               content = ''Distribution of '' @ columnName @ '':'',
               chart = Some \<lparr>chart_type = chartType, data = points, xKey = ''name'',
                             yKey = ''count'', chart_title = columnName @ '' Distribution''\<rparr>,
               table = None\<rparr>, this))"

definition createGroupedAnalysis ::
  "QueryProcessor \<Rightarrow> string \<Rightarrow> QueryResult \<times> QueryProcessor" where
  "createGroupedAnalysis this groupByColumn =
     (case find (\<lambda>col. name col = groupByColumn) (columns (dataset this)) of
        None \<Rightarrow> (textResult (''Column '' @ groupByColumn @ '' not found.''), this)
      | Some col \<Rightarrow>
          let groups =
                foldl (\<lambda>groups row.
                         pushGroup (String (js_or (getProp row groupByColumn) (JStr ''Unknown'')))
                           row groups)
                  [] (rows (dataset this));
              numericColumn =
                find (\<lambda>c. type c = TNumber \<and> name c \<noteq> groupByColumn) (columns (dataset this))
          in case numericColumn of
               Some nc \<Rightarrow>
                 let points =
                       map (\<lambda>(group, grows).
                              let vals = filter (\<lambda>v. \<not> isNaN v)
                                           (map (\<lambda>row. Number (getProp row (name nc))) grows);
                                  avg = (if length vals > 0
                                         then num_div (sumOf vals) (num_of_nat (length vals))
                                         else Fin 0)
                              in \<lparr>pt_name = group, pt_count = length grows,
                                  pt_average = Some avg, pt_value = avg\<rparr>)
                         (Object_entries groups)
                 in (\<lparr>result_type = ChartResult,
                      content = ''Analysis by '' @ groupByColumn @ '':'',
                      chart = Some \<lparr>chart_type = Bar, data = points, xKey = ''name'',
                                    yKey = ''average'',
                                    chart_title =
                                      ''Average '' @ name nc @ '' by '' @ groupByColumn\<rparr>,
                      table = None\<rparr>, this)
             | None \<Rightarrow>
                 let points =
                       map (\<lambda>(group, grows).
                              \<lparr>pt_name = group, pt_count = length grows, pt_average = None,
                               pt_value = num_of_nat (length grows)\<rparr>)
                         (Object_entries groups)
                 in (\<lparr>result_type = ChartResult,
                      content = ''Count by '' @ groupByColumn @ '':'',
                      chart = Some \<lparr>chart_type = Bar, data = points, xKey = ''name'',
                                    yKey = ''count'',
                                    chart_title = ''Count by '' @ groupByColumn\<rparr>,
                      table = None\<rparr>, this))"

subsection \<open>The handlers\<close>

text \<open>\<open>this.dataset.columns.filter(col => col.type === 'number')\<close>.\<close>
definition numericColumnsOf :: "QueryProcessor \<Rightarrow> DataColumn list" where
  "numericColumnsOf this = filter (\<lambda>col. type col = TNumber) (columns (dataset this))"

text \<open>\<open>col => query.toLowerCase().includes(col.name.toLowerCase())\<close>.\<close>
definition mentions :: "string \<Rightarrow> DataColumn \<Rightarrow> bool" where
  "mentions query col = includesStr (toLowerCase query) (toLowerCase (name col))"

text \<open>The mean as the handlers compute it: the sum over the count, \<open>0 / 0\<close> included.\<close>
definition averageOf :: "jsnum list \<Rightarrow> jsnum" where
  "averageOf vals = num_div (sumOf vals) (num_of_nat (length vals))"

definition handleAverageQuery :: "QueryProcessor \<Rightarrow> string \<Rightarrow> QueryResult \<times> QueryProcessor" where
  "handleAverageQuery this query =
     (let numericColumns = numericColumnsOf this in
      if length numericColumns = 0 then
        (textResult ''No numeric columns found for calculating averages.'', this)
      else
        case find (mentions query) numericColumns of
          Some mentionedColumn \<Rightarrow>
            let vals = coerced (values mentionedColumn);
                average = averageOf vals
            in (textResult (''The average '' @ name mentionedColumn @ '' is ''
                              @ toFixed average 2 @ ''.''), this)
        | None \<Rightarrow>
            let averages =
                  map (\<lambda>col. let vals = coerced (values col);
                                 avg = averageOf vals
                             in name col @ '': '' @ toFixed avg 2)
                    numericColumns
            in (textResult (''Average values:'' @ newline @ join newline averages), this))"

definition handleCountQuery :: "QueryProcessor \<Rightarrow> string \<Rightarrow> QueryResult \<times> QueryProcessor" where
  "handleCountQuery this query =
     (let totalRows = length (rows (dataset this));
          (conditions, this1) = extractConditions this query
      in if length conditions > 0 then
           let (filteredRows, this2) = applyFilters this1 conditions
           in (textResult (''Found '' @ natToString (length filteredRows)
                             @ '' rows matching your criteria out of ''
                             @ natToString totalRows @ '' total rows.''), this2)
         else (textResult (''Total number of records: '' @ natToString totalRows), this1))"

definition handleMaxQuery :: "QueryProcessor \<Rightarrow> string \<Rightarrow> QueryResult \<times> QueryProcessor" where
  "handleMaxQuery this query =
     (let numericColumns = numericColumnsOf this in
      case find (mentions query) numericColumns of
        Some mentionedColumn \<Rightarrow>
          let vals = coerced (values mentionedColumn);
              mx = Math_max vals
          in (textResult (''The maximum '' @ name mentionedColumn @ '' is ''
                            @ numberToString mx @ ''.''), this)
      | None \<Rightarrow>
          (textResult ''Please specify which column you want to find the maximum for.'', this))"

definition handleMinQuery :: "QueryProcessor \<Rightarrow> string \<Rightarrow> QueryResult \<times> QueryProcessor" where
  "handleMinQuery this query =
     (let numericColumns = numericColumnsOf this in
      case find (mentions query) numericColumns of
        Some mentionedColumn \<Rightarrow>
          let vals = coerced (values mentionedColumn);
              mn = Math_min vals
          in (textResult (''The minimum '' @ name mentionedColumn @ '' is ''
                            @ numberToString mn @ ''.''), this)
      | None \<Rightarrow>
          (textResult ''Please specify which column you want to find the minimum for.'', this))"

definition handleChartQuery :: "QueryProcessor \<Rightarrow> string \<Rightarrow> QueryResult \<times> QueryProcessor" where
  "handleChartQuery this query =
     (let lowerQuery = toLowerCase query;
          chartType = (if includesStr lowerQuery ''line'' then Line
                       else if includesStr lowerQuery ''pie'' then Pie
                       else if includesStr lowerQuery ''area'' then Area
                       else Bar);
          unable = textResult ''Unable to determine what to chart. Please specify a column name.''
      in case find (mentions query) (columns (dataset this)) of
           None \<Rightarrow>
             (case find (\<lambda>col. type col = TString) (columns (dataset this)) of
                Some categoricalCol \<Rightarrow> createDistributionChart this (name categoricalCol) chartType
              | None \<Rightarrow> (unable, this))
         | Some xColumn \<Rightarrow>
             if type xColumn = TString then createDistributionChart this (name xColumn) chartType
             else if type xColumn = TNumber then createNumericChart this (name xColumn) chartType
             else (unable, this))"

text \<open>\<open>s.split(' ')\<close>: the pieces between single spaces, empty ones included.\<close>
fun splitSpaces :: "string \<Rightarrow> string list" where
  "splitSpaces [] = [[]]"
| "splitSpaces (c # cs) =
     (if c = CHR '' '' then [] # splitSpaces cs
      else (case splitSpaces cs of
              [] \<Rightarrow> [[c]]
            | w # ws \<Rightarrow> (c # w) # ws))"

text \<open>\<open>words.indexOf(w)\<close>, with \<open>None\<close> for \<open>-1\<close>.\<close>
fun indexOf :: "string list \<Rightarrow> string \<Rightarrow> nat option" where
  "indexOf [] w = None"
| "indexOf (x # xs) w = (if x = w then Some 0 else map_option Suc (indexOf xs w))"

definition handleComparisonQuery :: "QueryProcessor \<Rightarrow> string \<Rightarrow> QueryResult \<times> QueryProcessor" where
  "handleComparisonQuery this query =
     (let wordList = splitSpaces (toLowerCase query) in
      case indexOf wordList ''by'' of
        None \<Rightarrow>
          (textResult ''Please specify what you want to compare and by which column.'', this)
      | Some byIndex \<Rightarrow>
          (case find (\<lambda>col. list_ex (\<lambda>w. includesStr (toLowerCase (name col)) w)
                                (drop (byIndex + 1) wordList))
                  (columns (dataset this)) of
             None \<Rightarrow> (textResult ''Could not identify the column to group by.'', this)
           | Some groupByColumn \<Rightarrow> createGroupedAnalysis this (name groupByColumn)))"

definition handleFilterQuery :: "QueryProcessor \<Rightarrow> string \<Rightarrow> QueryResult \<times> QueryProcessor" where
  "handleFilterQuery this query =
     (let (conditions, this1) = extractConditions this query;
          (filteredRows, this2) = applyFilters this1 conditions
      in if length filteredRows = 0 then
           (textResult ''No records match your filter criteria.'', this2)
         else
           let hdrs = map name (columns (dataset this2));
               trows = map (\<lambda>row. map (\<lambda>header. js_or (getProp row header) (JStr [])) hdrs)
                         (take 10 filteredRows)
           in (\<lparr>result_type = TableResult,
                content = ''Found '' @ natToString (length filteredRows) @ '' matching records:'',
                chart = None,
                table = Some \<lparr>headers = hdrs, table_rows = trows, title = ''Filtered Results''\<rparr>\<rparr>,
               this2))"

definition handleSummaryQuery :: "QueryProcessor \<Rightarrow> QueryResult \<times> QueryProcessor" where
  "handleSummaryQuery this =
     (let summary =
            map (\<lambda>col.
                   if type col = TNumber then
                     let vals = coerced (values col);
                         avg = averageOf vals;
                         mn = Math_min vals;
                         mx = Math_max vals
                     in name col @ '': Average '' @ toFixed avg 2 @ '', Range ''
                          @ numberToString mn @ ''-'' @ numberToString mx
                   else
                     let uniqueCount = length (remdups (values col))
                     in name col @ '': '' @ natToString uniqueCount @ '' unique values'')
              (columns (dataset this))
      in (textResult (''Data Summary for '' @ fileName (dataset this) @ '':'' @ newline @ newline
                        @ join newline summary), this))"

definition processQuery :: "QueryProcessor \<Rightarrow> string \<Rightarrow> QueryResult \<times> QueryProcessor" where
  "processQuery this query =
     (let lowerQuery = toLowerCase query in
      if includesStr lowerQuery ''average'' \<or> includesStr lowerQuery ''mean'' then
        handleAverageQuery this query
      else if includesStr lowerQuery ''count'' \<or> includesStr lowerQuery ''how many'' then
        handleCountQuery this query
      else if includesStr lowerQuery ''maximum'' \<or> includesStr lowerQuery ''max''
              \<or> includesStr lowerQuery ''highest'' then
        handleMaxQuery this query
      else if includesStr lowerQuery ''minimum'' \<or> includesStr lowerQuery ''min''
              \<or> includesStr lowerQuery ''lowest'' then
        handleMinQuery this query
      else if includesStr lowerQuery ''chart'' \<or> includesStr lowerQuery ''graph''
              \<or> includesStr lowerQuery ''plot'' \<or> includesStr lowerQuery ''show'' then
        handleChartQuery this query
      else if includesStr lowerQuery ''compare'' \<or> includesStr lowerQuery ''by'' then
        handleComparisonQuery this query
      else if includesStr lowerQuery ''where'' \<or> includesStr lowerQuery ''filter'' then
        handleFilterQuery this query
      else handleSummaryQuery this)"

section \<open>The intent rules as the specification lists them\<close>

datatype intent = IAverage | ICount | IMax | IMin | IChart | IComparison | IFilter | ISummary

text \<open>The keyword rules in the order of the specification; \<open>ISummary\<close> is the default.\<close>
definition spec_intent_rules :: "(string list \<times> intent) list" where
  "spec_intent_rules =
     [([''average'', ''mean''], IAverage),
      ([''count'', ''how many''], ICount),
      ([''maximum'', ''max'', ''highest''], IMax),
      ([''minimum'', ''min'', ''lowest''], IMin),
      ([''chart'', ''graph'', ''plot'', ''show''], IChart),
      ([''compare'', ''by''], IComparison),
      ([''where'', ''filter''], IFilter)]"

text \<open>The first rule one of whose keywords occurs in the text.\<close>
fun spec_classify :: "(string list \<times> intent) list \<Rightarrow> string \<Rightarrow> intent" where
  "spec_classify [] txt = ISummary"
| "spec_classify ((keywords, i) # rules) txt =
     (if list_ex (includesStr txt) keywords then i else spec_classify rules txt)"

text \<open>The handler of each intent.\<close>
fun handlerOf :: "intent \<Rightarrow> QueryProcessor \<Rightarrow> string \<Rightarrow> QueryResult \<times> QueryProcessor" where
  "handlerOf IAverage this query = handleAverageQuery this query"
| "handlerOf ICount this query = handleCountQuery this query"
| "handlerOf IMax this query = handleMaxQuery this query"
| "handlerOf IMin this query = handleMinQuery this query"
| "handlerOf IChart this query = handleChartQuery this query"
| "handlerOf IComparison this query = handleComparisonQuery this query"
| "handlerOf IFilter this query = handleFilterQuery this query"
| "handlerOf ISummary this query = handleSummaryQuery this"

subsection \<open>An example dataset\<close>

text \<open>A dataset of eleven rows, \<open>n = 1, ..., 11\<close>.\<close>

definition eleven_rows :: QueryProcessor where
  "eleven_rows =
     \<lparr>dataset =
        \<lparr>columns = [\<lparr>name = ''n'', type = TNumber,
                      values = map (\<lambda>k. JNum (Fin (of_nat k))) [1..<12]\<rparr>],
         rows = map (\<lambda>k. [''n'' \<mapsto> JNum (Fin (of_nat k))]) [1..<12],
         fileName = ''numbers.xlsx''\<rparr>\<rparr>"

section \<open>Type inference\<close>

lemma over80_iff: "over80 c n \<longleftrightarrow> 4 * n < 5 * c"
proof -
  have "over80 c n \<longleftrightarrow> (of_nat (4 * n) :: rat) < of_nat (5 * c)"
    by (simp add: over80_def field_simps)
  then show ?thesis by (simp only: of_nat_less_iff)
qed

lemma inferType_TNumber_iff:
  "inferType Date_parse vals = TNumber
     \<longleftrightarrow> vals \<noteq> [] \<and> 4 * length vals < 5 * length (filter numericValue vals)"
  by (simp add: inferType_def Let_def over80_def field_simps)

text \<open>
  Claim C3, as the code has it. The inferrer tests number, then boolean, then date, and
  falls back to string; each test passes when strictly more than 80% of the non-null values
  qualify (\<open>count > length * 0.8\<close>, that is \<open>5 * count > 4 * length\<close>). So a column more
  than 80% numeric is typed number whatever else it holds, the column \<open>["1","0","1"]\<close> is
  typed number, and a column with no non-null value is typed string.
\<close>
theorem inferType_thresholds:
  "inferType Date_parse [] = TString
   \<and> (inferType Date_parse vals = TNumber
        \<longleftrightarrow> vals \<noteq> [] \<and> 4 * length vals < 5 * length (filter numericValue vals))
   \<and> (inferType Date_parse vals = TBoolean
        \<longleftrightarrow> vals \<noteq> [] \<and> \<not> 4 * length vals < 5 * length (filter numericValue vals)
            \<and> 4 * length vals < 5 * length (filter booleanValue vals))
   \<and> (inferType Date_parse vals = TDate
        \<longleftrightarrow> vals \<noteq> [] \<and> \<not> 4 * length vals < 5 * length (filter numericValue vals)
            \<and> \<not> 4 * length vals < 5 * length (filter booleanValue vals)
            \<and> 4 * length vals < 5 * length (filter (dateValue Date_parse) vals))
   \<and> inferType Date_parse [JStr ''1'', JStr ''0'', JStr ''1''] = TNumber"
proof -
  have ex: "inferType Date_parse [JStr ''1'', JStr ''0'', JStr ''1''] = TNumber"
    by code_simp
  have e: "inferType Date_parse [] = TString"
    by (simp add: inferType_def)
  have n: "inferType Date_parse vals = TNumber
        \<longleftrightarrow> vals \<noteq> [] \<and> 4 * length vals < 5 * length (filter numericValue vals)"
    by (simp add: inferType_def Let_def over80_iff)
  have b: "inferType Date_parse vals = TBoolean
        \<longleftrightarrow> vals \<noteq> [] \<and> \<not> 4 * length vals < 5 * length (filter numericValue vals)
            \<and> 4 * length vals < 5 * length (filter booleanValue vals)"
    by (simp add: inferType_def Let_def over80_iff)
  have d: "inferType Date_parse vals = TDate
        \<longleftrightarrow> vals \<noteq> [] \<and> \<not> 4 * length vals < 5 * length (filter numericValue vals)
            \<and> \<not> 4 * length vals < 5 * length (filter booleanValue vals)
            \<and> 4 * length vals < 5 * length (filter (dateValue Date_parse) vals)"
    by (simp add: inferType_def Let_def over80_iff)
  from e n b d ex show ?thesis by blast
qed

text \<open>
  Claim C3 as stated fails at exactly 80%: of the five values \<open>1, 2, 3, 4, "abc"\<close> four
  are numeric, and the column is not typed number, whatever \<open>Date.parse\<close> accepts.
\<close>
theorem inferType_exactly_80_counterexample:
  "\<forall>Date_parse.
     5 * length (filter numericValue
           [JNum (Fin 1), JNum (Fin 2), JNum (Fin 3), JNum (Fin 4), JStr ''abc''])
       = 4 * length [JNum (Fin 1), JNum (Fin 2), JNum (Fin 3), JNum (Fin 4), JStr ''abc'']
     \<and> inferType Date_parse
          [JNum (Fin 1), JNum (Fin 2), JNum (Fin 3), JNum (Fin 4), JStr ''abc''] \<noteq> TNumber"
proof -
  have n: "filter numericValue
             [JNum (Fin 1), JNum (Fin 2), JNum (Fin 3), JNum (Fin 4), JStr ''abc'']
           = [JNum (Fin 1), JNum (Fin 2), JNum (Fin 3), JNum (Fin 4)]"
    by code_simp
  show ?thesis
    unfolding inferType_def Let_def n by (simp add: over80_def)
qed

section \<open>Intent classification\<close>

text \<open>
  Claim C4. \<open>processQuery\<close> runs the handler of the first rule, in the order Average, Count,
  Max, Min, Chart, Comparison, Filter, one of whose keywords occurs in the lower-cased
  question, and the Summary handler when no rule matches; \<open>"show average sales"\<close> is an
  Average question.
\<close>
theorem processQuery_first_match:
  "processQuery this query
     = handlerOf (spec_classify spec_intent_rules (toLowerCase query)) this query
   \<and> spec_classify spec_intent_rules (toLowerCase ''show average sales'') = IAverage
   \<and> (list_all (\<lambda>kw. \<not> includesStr (toLowerCase query) kw)
         (concat (map fst spec_intent_rules))
        \<longrightarrow> spec_classify spec_intent_rules (toLowerCase query) = ISummary)"
proof -
  have a: "processQuery this query
     = handlerOf (spec_classify spec_intent_rules (toLowerCase query)) this query"
    by (simp add: processQuery_def spec_intent_rules_def Let_def)
  have b: "spec_classify spec_intent_rules (toLowerCase ''show average sales'') = IAverage"
    by code_simp
  have c: "list_all (\<lambda>kw. \<not> includesStr (toLowerCase query) kw)
         (concat (map fst spec_intent_rules))
        \<longrightarrow> spec_classify spec_intent_rules (toLowerCase query) = ISummary"
    by (simp add: spec_intent_rules_def)
  from a b c show ?thesis by blast
qed

text \<open>Witness for C4: the question \<open>"hello there"\<close> holds no keyword and is a Summary
  question.\<close>
theorem processQuery_first_match_witness:
  "list_all (\<lambda>kw. \<not> includesStr (toLowerCase ''hello there'') kw)
         (concat (map fst spec_intent_rules))
   \<and> spec_classify spec_intent_rules (toLowerCase ''hello there'') = ISummary"
proof -
  have h: "list_all (\<lambda>kw. \<not> includesStr (toLowerCase ''hello there'') kw)
         (concat (map fst spec_intent_rules))"
    by code_simp
  with processQuery_first_match [of _ "''hello there''"] show ?thesis by blast
qed

section \<open>The dataset is never written\<close>

lemma createDistributionChart_frame: "snd (createDistributionChart this c k) = this"
  by (simp add: createDistributionChart_def Let_def split: option.splits)

lemma createNumericChart_frame: "snd (createNumericChart this c k) = this"
  by (simp add: createNumericChart_def Let_def split: option.splits)

lemma createGroupedAnalysis_frame: "snd (createGroupedAnalysis this c) = this"
  by (simp add: createGroupedAnalysis_def Let_def split: option.splits)

lemma extractConditions_frame: "snd (extractConditions this query) = this"
  by (simp add: extractConditions_def Let_def)

lemma applyFilters_frame: "snd (applyFilters this conds) = this"
  by (simp add: applyFilters_def)

lemma handleAverageQuery_frame: "snd (handleAverageQuery this query) = this"
  by (simp add: handleAverageQuery_def Let_def split: option.splits)

lemma handleCountQuery_frame: "snd (handleCountQuery this query) = this"
  by (simp add: handleCountQuery_def extractConditions_def applyFilters_def Let_def)

lemma handleMaxQuery_frame: "snd (handleMaxQuery this query) = this"
  by (simp add: handleMaxQuery_def Let_def split: option.splits)

lemma handleMinQuery_frame: "snd (handleMinQuery this query) = this"
  by (simp add: handleMinQuery_def Let_def split: option.splits)

lemma handleChartQuery_frame: "snd (handleChartQuery this query) = this"
  by (simp add: handleChartQuery_def Let_def createDistributionChart_frame
      createNumericChart_frame split: option.splits)

lemma handleComparisonQuery_frame: "snd (handleComparisonQuery this query) = this"
  by (simp add: handleComparisonQuery_def Let_def createGroupedAnalysis_frame
      split: option.splits)

lemma handleFilterQuery_frame: "snd (handleFilterQuery this query) = this"
  by (simp add: handleFilterQuery_def extractConditions_def applyFilters_def Let_def)

lemma handleSummaryQuery_frame: "snd (handleSummaryQuery this) = this"
  by (simp add: handleSummaryQuery_def Let_def)

text \<open>
  Claim C9. Whatever the question, the object that \<open>processQuery\<close> leaves behind is the one
  it was called on: the dataset (columns with their names, types and values, rows and file
  name) is the same after the call as before. The same holds for \<open>applyFilters\<close> and
  \<open>extractConditions\<close> called on their own.
\<close>
theorem processQuery_leaves_dataset:
  "snd (processQuery this query) = this
   \<and> dataset (snd (processQuery this query)) = dataset this
   \<and> snd (applyFilters this conds) = this
   \<and> snd (extractConditions this query) = this"
  by (simp add: processQuery_def Let_def handleAverageQuery_frame handleCountQuery_frame
      handleMaxQuery_frame handleMinQuery_frame handleChartQuery_frame
      handleComparisonQuery_frame handleFilterQuery_frame handleSummaryQuery_frame
      applyFilters_frame extractConditions_frame)

section \<open>Ingestion: the shape of a dataset\<close>

lemma processFile_Rows:
  assumes "processFile Date_parse file_name (Rows hdrs dataRows) = Inr ds"
  shows "columns ds = inferColumnTypes Date_parse hdrs dataRows"
    and "rows ds = map (rowObject hdrs) dataRows"
    and "fileName ds = file_name"
  using assms by (auto simp: processFile_def Let_def)

lemma length_inferColumnTypes [simp]:
  "length (inferColumnTypes Date_parse hs dataRows) = length hs"
  by (simp add: inferColumnTypes_def)

lemma inferColumnTypes_nth:
  assumes "i < length hs"
  shows "inferColumnTypes Date_parse hs dataRows ! i
         = \<lparr>name = hs ! i,
            type = inferType Date_parse
                     (filter (\<lambda>val. \<not> nullish val) (map (\<lambda>row. cell row i) dataRows)),
            values = filter (\<lambda>val. \<not> nullish val) (map (\<lambda>row. cell row i) dataRows)\<rparr>"
  using assms by (simp add: inferColumnTypes_def nth_enumerate_eq Let_def)

lemma names_inferColumnTypes: "map name (inferColumnTypes Date_parse hs dataRows) = hs"
  by (rule nth_equalityI) (simp_all add: inferColumnTypes_nth)

lemma rowObject_fold_dom:
  "dom (foldl (\<lambda>rowObj (index, header). rowObj(header \<mapsto> js_or (cell row index) JNull))
          m (enumerate n hs)) = dom m \<union> set hs"
  by (induction hs arbitrary: m n) auto

lemma dom_rowObject: "dom (rowObject hs row) = set hs"
  by (simp add: rowObject_def rowObject_fold_dom)

lemma rowObject_fold_other:
  "k \<notin> set hs \<Longrightarrow>
   foldl (\<lambda>rowObj (index, header). rowObj(header \<mapsto> js_or (cell row index) JNull))
     m (enumerate n hs) k = m k"
  by (induction hs arbitrary: m n) auto

text \<open>A later header of the same name overwrites the key: the row-record holds, under a
  name, the cell of the last column of that name.\<close>

lemma rowObject_fold_last:
  "i < length hs \<Longrightarrow> (\<forall>j. i < j \<and> j < length hs \<longrightarrow> hs ! j \<noteq> hs ! i) \<Longrightarrow>
   foldl (\<lambda>rowObj (index, header). rowObj(header \<mapsto> js_or (cell row index) JNull))
     m (enumerate n hs) (hs ! i) = Some (js_or (cell row (n + i)) JNull)"
proof (induction hs arbitrary: m n i)
  case Nil
  then show ?case by simp
next
  case (Cons h hs)
  show ?case
  proof (cases i)
    case 0
    have "h \<notin> set hs"
    proof
      assume "h \<in> set hs"
      then obtain j where j: "j < length hs" "hs ! j = h"
        by (auto simp: in_set_conv_nth)
      with Cons.prems(2) 0 have "(h # hs) ! Suc j \<noteq> (h # hs) ! 0"
        by (metis Suc_less_eq length_Cons zero_less_Suc)
      with j show False by simp
    qed
    from rowObject_fold_other [OF this, of row "m(h \<mapsto> js_or (cell row n) JNull)" "Suc n"] 0
    show ?thesis by (simp del: fun_upd_apply) simp
  next
    case (Suc k)
    from Cons.prems Suc have k: "k < length hs" by simp
    have "\<forall>j. k < j \<and> j < length hs \<longrightarrow> hs ! j \<noteq> hs ! k"
    proof (intro allI impI)
      fix j assume "k < j \<and> j < length hs"
      with Cons.prems(2) Suc have "(h # hs) ! Suc j \<noteq> (h # hs) ! Suc k"
        by (metis Suc_less_eq length_Cons)
      then show "hs ! j \<noteq> hs ! k" by simp
    qed
    from Cons.IH [OF k this, of "m(h \<mapsto> js_or (cell row n) JNull)" "Suc n"] Suc
    show ?thesis by simp
  qed
qed

lemma rowObject_last:
  "i < length hs \<Longrightarrow> (\<forall>j. i < j \<and> j < length hs \<longrightarrow> hs ! j \<noteq> hs ! i) \<Longrightarrow>
   rowObject hs row (hs ! i) = Some (js_or (cell row i) JNull)"
  using rowObject_fold_last [of i hs row Map.empty 0] by (simp add: rowObject_def)

lemma length_filter_eq_iff:
  "length (filter P xs) = length xs \<longleftrightarrow> (\<forall>x \<in> set xs. P x)"
proof
  assume "length (filter P xs) = length xs"
  then show "\<forall>x \<in> set xs. P x"
    by (metis filter_id_conv length_filter_less less_irrefl)
next
  assume "\<forall>x \<in> set xs. P x"
  then show "length (filter P xs) = length xs" by simp
qed

text \<open>
  Claim C1, as the code has it. A dataset that \<open>processFile\<close> builds from a header row of
  strings and data rows has one column per header, in order and under the header's name,
  and one row-record per data row; every row-record has exactly the column names as its
  keys. The values of column \<open>i\<close> are the cells of that column that are neither \<open>null\<close>
  nor missing, in row order (\<open>.filter(val => val != null)\<close>): there are at most as many as
  rows, and exactly as many when no cell of the column is null or missing.
\<close>
theorem processFile_shape:
  assumes "processFile Date_parse file_name (Rows hdrs dataRows) = Inr ds"
  shows "map name (columns ds) = hdrs
    \<and> length (rows ds) = length dataRows
    \<and> (\<forall>row \<in> set (rows ds). dom row = set (map name (columns ds)))
    \<and> (\<forall>i < length (columns ds).
          values (columns ds ! i)
            = filter (\<lambda>val. \<not> nullish val) (map (\<lambda>r. cell r i) dataRows)
          \<and> length (values (columns ds ! i)) \<le> length (rows ds)
          \<and> (length (values (columns ds ! i)) = length (rows ds)
               \<longleftrightarrow> (\<forall>r \<in> set dataRows. \<not> nullish (cell r i))))"
proof -
  note p = processFile_Rows [OF assms]
  have n: "map name (columns ds) = hdrs"
    by (simp add: p(1) names_inferColumnTypes)
  have l: "length (rows ds) = length dataRows"
    by (simp add: p(2))
  have d: "\<forall>row \<in> set (rows ds). dom row = set (map name (columns ds))"
    by (auto simp: n p(2) dom_rowObject)
  have v: "\<forall>i < length (columns ds).
          values (columns ds ! i)
            = filter (\<lambda>val. \<not> nullish val) (map (\<lambda>r. cell r i) dataRows)
          \<and> length (values (columns ds ! i)) \<le> length (rows ds)
          \<and> (length (values (columns ds ! i)) = length (rows ds)
               \<longleftrightarrow> (\<forall>r \<in> set dataRows. \<not> nullish (cell r i)))"
  proof (intro allI impI)
    fix i assume i: "i < length (columns ds)"
    then have i': "i < length hdrs" by (simp add: p(1))
    have vi: "values (columns ds ! i)
            = filter (\<lambda>val. \<not> nullish val) (map (\<lambda>r. cell r i) dataRows)"
      by (simp add: p(1) inferColumnTypes_nth [OF i'])
    have le: "length (values (columns ds ! i)) \<le> length (rows ds)"
      unfolding vi l by (rule order_trans [OF length_filter_le]) simp
    have eq: "length (values (columns ds ! i)) = length (rows ds)
               \<longleftrightarrow> (\<forall>r \<in> set dataRows. \<not> nullish (cell r i))"
      unfolding vi l
      using length_filter_eq_iff [of "\<lambda>val. \<not> nullish val" "map (\<lambda>r. cell r i) dataRows"]
      by simp
    from vi le eq show "values (columns ds ! i)
            = filter (\<lambda>val. \<not> nullish val) (map (\<lambda>r. cell r i) dataRows)
          \<and> length (values (columns ds ! i)) \<le> length (rows ds)
          \<and> (length (values (columns ds ! i)) = length (rows ds)
               \<longleftrightarrow> (\<forall>r \<in> set dataRows. \<not> nullish (cell r i)))"
      by blast
  qed
  from n l d v show ?thesis by blast
qed

text \<open>Witness for C1: a sheet with headers \<open>a\<close>, \<open>b\<close> and two data rows, one cell
  \<open>null\<close>.\<close>
theorem processFile_shape_witness:
  "\<forall>Date_parse. \<exists>ds.
     processFile Date_parse ''f.xlsx''
       (Rows [''a'', ''b''] [[JNum (Fin 1), JStr ''x''], [JNull, JStr ''y'']]) = Inr ds
     \<and> map name (columns ds) = [''a'', ''b'']
     \<and> length (rows ds) = 2
     \<and> map dom (rows ds) = [{''a'', ''b''}, {''a'', ''b''}]
     \<and> map (\<lambda>col. length (values col)) (columns ds) = [1, 2]"
proof (intro allI)
  fix Date_parse
  let ?hs = "[''a'', ''b'']"
  let ?rs = "[[JNum (Fin 1), JStr ''x''], [JNull, JStr ''y'']]"
  let ?ds = "\<lparr>columns = inferColumnTypes Date_parse ?hs ?rs,
              rows = map (rowObject ?hs) ?rs, fileName = ''f.xlsx''\<rparr>"
  have e: "processFile Date_parse ''f.xlsx'' (Rows ?hs ?rs) = Inr ?ds"
    by (simp add: processFile_def Let_def)
  note t = processFile_shape [OF e]
  have n: "map name (columns ?ds) = [''a'', ''b'']"
    using t [THEN conjunct1] by simp
  have l: "length (rows ?ds) = 2"
    using t [THEN conjunct2, THEN conjunct1] by simp
  have d: "map dom (rows ?ds) = [{''a'', ''b''}, {''a'', ''b''}]"
    by (simp add: dom_rowObject)
  have v: "map (\<lambda>col. length (values col)) (columns ?ds) = [1, 2]"
    by (simp add: inferColumnTypes_def Let_def cell_def)
  from e n l d v show "\<exists>ds. processFile Date_parse ''f.xlsx'' (Rows ?hs ?rs) = Inr ds
     \<and> map name (columns ds) = [''a'', ''b'']
     \<and> length (rows ds) = 2
     \<and> map dom (rows ds) = [{''a'', ''b''}, {''a'', ''b''}]
     \<and> map (\<lambda>col. length (values col)) (columns ds) = [1, 2]"
    by (intro exI [of _ ?ds] conjI)
qed

text \<open>
  Claim C1 as stated fails when a cell is null: for the sheet with header \<open>a\<close> and the data
  rows \<open>[1]\<close> and \<open>[null]\<close> the dataset has two rows and column \<open>a\<close> has one value.
\<close>
theorem processFile_null_cell_counterexample:
  "\<forall>Date_parse.
     map_sum id (\<lambda>ds. (length (rows ds), map (\<lambda>col. length (values col)) (columns ds)))
       (processFile Date_parse ''f.xlsx'' (Rows [''a''] [[JNum (Fin 1)], [JNull]]))
     = Inr (2, [1])"
  by (simp add: processFile_def inferColumnTypes_def Let_def cell_def)

section \<open>Falsy cells\<close>

text \<open>
  Claim C10, as the code has it. Take a column whose name no later column repeats. A cell
  of it that is falsy (missing, \<open>null\<close>, \<open>0\<close>, \<open>NaN\<close>, the empty string or \<open>false\<close>) is
  \<open>null\<close> in its row-record. A grouping by the column files the row under \<open>Unknown\<close>, and
  an \<open>=\<close> filter on the column reads the text \<open>null\<close>; the filters \<open><\<close>, \<open>>\<close>, \<open><=\<close>
  and \<open>>=\<close> read \<open>Number(null)\<close>, which is \<open>0\<close>. A cell \<open>0\<close> in particular is \<open>null\<close> in
  the row-record while \<open>0\<close> stays in the column's values, and the filter \<open>column = 0\<close>
  does not match the row.
\<close>
theorem falsy_cell_is_null:
  assumes "processFile Date_parse file_name (Rows hdrs dataRows) = Inr ds"
    and "i < length hdrs"
    and "\<forall>j. i < j \<and> j < length hdrs \<longrightarrow> hdrs ! j \<noteq> hdrs ! i"
    and "k < length dataRows"
    and "falsy (cell (dataRows ! k) i)"
  shows "(rows ds ! k) (name (columns ds ! i)) = Some JNull
    \<and> String (js_or (getProp (rows ds ! k) (name (columns ds ! i))) (JStr ''Unknown''))
        = ''Unknown''
    \<and> conditionHolds (rows ds ! k)
          \<lparr>column = name (columns ds ! i), operator = ''='', cond_value = v\<rparr>
        = includesStr ''null'' (toLowerCase (String v))
    \<and> conditionHolds (rows ds ! k)
          \<lparr>column = name (columns ds ! i), operator = ''<'', cond_value = v\<rparr>
        = num_less (Fin 0) (Number v)
    \<and> conditionHolds (rows ds ! k)
          \<lparr>column = name (columns ds ! i), operator = ''>'', cond_value = v\<rparr>
        = num_greater (Fin 0) (Number v)
    \<and> conditionHolds (rows ds ! k)
          \<lparr>column = name (columns ds ! i), operator = ''<='', cond_value = v\<rparr>
        = num_le (Fin 0) (Number v)
    \<and> conditionHolds (rows ds ! k)
          \<lparr>column = name (columns ds ! i), operator = ''>='', cond_value = v\<rparr>
        = num_ge (Fin 0) (Number v)
    \<and> (cell (dataRows ! k) i = JNum (Fin 0) \<longrightarrow>
          JNum (Fin 0) \<in> set (values (columns ds ! i))
          \<and> \<not> conditionHolds (rows ds ! k)
                \<lparr>column = name (columns ds ! i), operator = ''='',
                 cond_value = JNum (Fin 0)\<rparr>)"
proof -
  let ?row = "dataRows ! k"
  let ?nm = "name (columns ds ! i)"
  note p = processFile_Rows [OF assms(1)]
  have nm: "?nm = hdrs ! i"
    using assms(2) by (simp add: p(1) inferColumnTypes_nth)
  have rk: "rows ds ! k = rowObject hdrs ?row"
    using assms(4) by (simp add: p(2))
  have "rowObject hdrs ?row (hdrs ! i) = Some (js_or (cell ?row i) JNull)"
    using assms(2,3) by (rule rowObject_last)
  with assms(5) have a: "(rows ds ! k) ?nm = Some JNull"
    by (simp add: nm rk js_or_def)
  then have g: "getProp (rows ds ! k) ?nm = JNull"
    by (simp add: getProp_def)
  have b: "String (js_or (getProp (rows ds ! k) ?nm) (JStr ''Unknown'')) = ''Unknown''"
    by (simp add: g js_or_def)
  have lw: "toLowerCase ''null'' = ''null''" by code_simp
  have lz: "toLowerCase ''0'' = ''0''" by code_simp
  have ceq: "conditionHolds (rows ds ! k) \<lparr>column = ?nm, operator = ''='', cond_value = v\<rparr>
        = includesStr ''null'' (toLowerCase (String v))"
    by (simp add: conditionHolds_def g lw)
  have clt: "conditionHolds (rows ds ! k) \<lparr>column = ?nm, operator = ''<'', cond_value = v\<rparr>
        = num_less (Fin 0) (Number v)"
    by (simp add: conditionHolds_def g)
  have cgt: "conditionHolds (rows ds ! k) \<lparr>column = ?nm, operator = ''>'', cond_value = v\<rparr>
        = num_greater (Fin 0) (Number v)"
    by (simp add: conditionHolds_def g)
  have cle: "conditionHolds (rows ds ! k) \<lparr>column = ?nm, operator = ''<='', cond_value = v\<rparr>
        = num_le (Fin 0) (Number v)"
    by (simp add: conditionHolds_def g)
  have cge: "conditionHolds (rows ds ! k) \<lparr>column = ?nm, operator = ''>='', cond_value = v\<rparr>
        = num_ge (Fin 0) (Number v)"
    by (simp add: conditionHolds_def g)
  have c: "cell ?row i = JNum (Fin 0) \<longrightarrow>
          JNum (Fin 0) \<in> set (values (columns ds ! i))
          \<and> \<not> conditionHolds (rows ds ! k)
                \<lparr>column = ?nm, operator = ''='', cond_value = JNum (Fin 0)\<rparr>"
  proof
    assume z: "cell ?row i = JNum (Fin 0)"
    have "?row \<in> set dataRows"
      using assms(4) by (rule nth_mem)
    then have "cell ?row i \<in> set (map (\<lambda>row. cell row i) dataRows)"
      by auto
    with z have v: "JNum (Fin 0) \<in> set (values (columns ds ! i))"
      using assms(2) by (simp add: p(1) inferColumnTypes_nth)
    have "\<not> conditionHolds (rows ds ! k)
                \<lparr>column = ?nm, operator = ''='', cond_value = JNum (Fin 0)\<rparr>"
      by (simp add: conditionHolds_def g lw lz)
    with v show "JNum (Fin 0) \<in> set (values (columns ds ! i))
          \<and> \<not> conditionHolds (rows ds ! k)
                \<lparr>column = ?nm, operator = ''='', cond_value = JNum (Fin 0)\<rparr>" ..
  qed
  from a b ceq clt cgt cle cge c show ?thesis by (intro conjI)
qed

text \<open>Witness for C10: the quantity \<open>0\<close> of the first data row is \<open>null\<close> in the
  row-record, stays in the values, and passes the filter \<open>qty < 5\<close>.\<close>
theorem falsy_cell_is_null_witness:
  "\<forall>Date_parse. \<exists>ds.
     processFile Date_parse ''stock.xlsx''
       (Rows [''qty'', ''item''] [[JNum (Fin 0), JStr ''nut''], [JNum (Fin 7), JStr ''bolt'']])
       = Inr ds
     \<and> [''qty'', ''item''] ! 1 \<noteq> [''qty'', ''item''] ! 0
     \<and> falsy (cell [JNum (Fin 0), JStr ''nut''] 0)
     \<and> (rows ds ! 0) ''qty'' = Some JNull
     \<and> values (columns ds ! 0) = [JNum (Fin 0), JNum (Fin 7)]
     \<and> type (columns ds ! 0) = TNumber
     \<and> conditionHolds (rows ds ! 0)
          \<lparr>column = ''qty'', operator = ''<'', cond_value = JNum (Fin 5)\<rparr>"
proof (intro allI)
  fix Date_parse
  let ?hs = "[''qty'', ''item'']"
  let ?rs = "[[JNum (Fin 0), JStr ''nut''], [JNum (Fin 7), JStr ''bolt'']]"
  let ?ds = "\<lparr>columns = inferColumnTypes Date_parse ?hs ?rs,
              rows = map (rowObject ?hs) ?rs, fileName = ''stock.xlsx''\<rparr>"
  have e: "processFile Date_parse ''stock.xlsx'' (Rows ?hs ?rs) = Inr ?ds"
    by (simp add: processFile_def Let_def)
  have i: "0 < length ?hs" by simp
  have u: "\<forall>j. 0 < j \<and> j < length ?hs \<longrightarrow> ?hs ! j \<noteq> ?hs ! 0"
    by (auto simp: less_Suc_eq)
  have k: "0 < length ?rs" by simp
  have f: "falsy (cell (?rs ! 0) 0)" by (simp add: cell_def)
  have nm: "name (columns ?ds ! 0) = ''qty''"
    by (simp add: inferColumnTypes_nth)
  note t = falsy_cell_is_null [OF e i u k f, of "JNum (Fin 5)"]
  have r: "(rows ?ds ! 0) ''qty'' = Some JNull"
    using t [THEN conjunct1] by (simp only: nm)
  have lt: "conditionHolds (rows ?ds ! 0)
          \<lparr>column = ''qty'', operator = ''<'', cond_value = JNum (Fin 5)\<rparr>"
    using t [THEN conjunct2, THEN conjunct2, THEN conjunct2, THEN conjunct1]
    by (simp only: nm) simp
  have vs: "values (columns ?ds ! 0) = [JNum (Fin 0), JNum (Fin 7)]"
    by (simp add: inferColumnTypes_nth cell_def)
  have nv: "filter numericValue [JNum (Fin 0), JNum (Fin 7)] = [JNum (Fin 0), JNum (Fin 7)]"
    by code_simp
  have ty0: "inferType Date_parse [JNum (Fin 0), JNum (Fin 7)] = TNumber"
    unfolding inferType_TNumber_iff nv by simp
  have ty: "type (columns ?ds ! 0) = TNumber"
    by (simp add: inferColumnTypes_nth cell_def ty0)
  have d': "?hs ! 1 \<noteq> ?hs ! 0" by simp
  have f': "falsy (cell [JNum (Fin 0), JStr ''nut''] 0)" by (simp add: cell_def)
  from e d' f' r vs ty lt show "\<exists>ds.
     processFile Date_parse ''stock.xlsx'' (Rows ?hs ?rs) = Inr ds
     \<and> ?hs ! 1 \<noteq> ?hs ! 0
     \<and> falsy (cell [JNum (Fin 0), JStr ''nut''] 0)
     \<and> (rows ds ! 0) ''qty'' = Some JNull
     \<and> values (columns ds ! 0) = [JNum (Fin 0), JNum (Fin 7)]
     \<and> type (columns ds ! 0) = TNumber
     \<and> conditionHolds (rows ds ! 0)
          \<lparr>column = ''qty'', operator = ''<'', cond_value = JNum (Fin 5)\<rparr>"
    by (intro exI [of _ ?ds] conjI)
qed

text \<open>
  Claim C10 as stated fails twice. The nulled \<open>0\<close> is not invisible to filters and counts:
  in the sheet with header \<open>qty\<close> and the data rows \<open>[0]\<close> and \<open>[7]\<close> the first row-record
  holds \<open>null\<close>, yet the filter \<open>qty < 5\<close> keeps that row and the count question answers
  one row of two. And a falsy cell is not always \<open>null\<close> in the row-record: under the headers
  \<open>a, a\<close> the row \<open>[0, 5]\<close> has \<open>a = 5\<close>.
\<close>
theorem zero_cell_counted_counterexample:
  "\<forall>Date_parse.
     map_sum id
       (\<lambda>ds. ((rows ds ! 0) ''qty'',
              length (fst (applyFilters \<lparr>dataset = ds\<rparr>
                             [\<lparr>column = ''qty'', operator = ''<'', cond_value = JNum (Fin 5)\<rparr>])),
              content (fst (handleCountQuery \<lparr>dataset = ds\<rparr> ''how many where qty < 5''))))
       (processFile Date_parse ''stock.xlsx'' (Rows [''qty''] [[JNum (Fin 0)], [JNum (Fin 7)]]))
     = Inr (Some JNull, 1, ''Found 1 rows matching your criteria out of 2 total rows.'')
   \<and> map_sum id (\<lambda>ds. (rows ds ! 0) ''a'')
       (processFile Date_parse ''f.xlsx'' (Rows [''a'', ''a''] [[JNum (Fin 0), JNum (Fin 5)]]))
     = Inr (Some (JNum (Fin 5)))"
proof (intro allI conjI)
  fix Date_parse
  show "map_sum id
       (\<lambda>ds. ((rows ds ! 0) ''qty'',
              length (fst (applyFilters \<lparr>dataset = ds\<rparr>
                             [\<lparr>column = ''qty'', operator = ''<'', cond_value = JNum (Fin 5)\<rparr>])),
              content (fst (handleCountQuery \<lparr>dataset = ds\<rparr> ''how many where qty < 5''))))
       (processFile Date_parse ''stock.xlsx'' (Rows [''qty''] [[JNum (Fin 0)], [JNum (Fin 7)]]))
     = Inr (Some JNull, 1, ''Found 1 rows matching your criteria out of 2 total rows.'')"
    by code_simp
  show "map_sum id (\<lambda>ds. (rows ds ! 0) ''a'')
       (processFile Date_parse ''f.xlsx'' (Rows [''a'', ''a''] [[JNum (Fin 0), JNum (Fin 5)]]))
     = Inr (Some (JNum (Fin 5)))"
    by code_simp
qed

section \<open>Averages\<close>

lemma inferColumnTypes_type:
  assumes "col \<in> set (inferColumnTypes Date_parse hs dataRows)"
  shows "type col = inferType Date_parse (values col)"
proof -
  from assms obtain i where "i < length hs" "col = inferColumnTypes Date_parse hs dataRows ! i"
    by (auto simp: in_set_conv_nth)
  then show ?thesis by (simp add: inferColumnTypes_nth)
qed

lemma number_typed_coerces:
  assumes "inferType Date_parse vals = TNumber"
  shows "coerced vals \<noteq> []"
proof -
  from assms have "filter numericValue vals \<noteq> []"
    by (auto simp: inferType_TNumber_iff)
  then obtain v where v: "v \<in> set vals" "numericValue v"
    by (auto simp: filter_empty_conv)
  then have "Number v \<in> set (coerced vals)"
    by (auto simp: coerced_def numericValue_def)
  then show ?thesis by auto
qed

text \<open>In a dataset that \<open>processFile\<close> builds, every number-typed column has a value that
  coerces: the column of the claim below is not one of them.\<close>

lemma ingested_number_column_coerces:
  assumes "processFile Date_parse file_name (Rows hdrs dataRows) = Inr ds"
    and "c \<in> set (numericColumnsOf \<lparr>dataset = ds\<rparr>)"
  shows "coerced (values c) \<noteq> []"
proof -
  from assms(2) have c: "c \<in> set (columns ds)" and t: "type c = TNumber"
    by (auto simp: numericColumnsOf_def)
  from c have "type c = inferType Date_parse (values c)"
    unfolding processFile_Rows(1) [OF assms(1)] by (rule inferColumnTypes_type)
  with t show ?thesis
    using number_typed_coerces by metis
qed




section \<open>Filters\<close>

text \<open>
  Claim C6. \<open>applyFilters\<close> keeps, in order, the rows on which every condition holds, and
  all rows when there is no condition. A condition with operator \<open>>\<close>, \<open><\<close>, \<open>>=\<close> or
  \<open><=\<close> compares \<open>Number(cell)\<close> with \<open>Number(value)\<close>; one with operator \<open>=\<close> holds exactly when
  the lower-cased \<open>String(cell)\<close> contains the lower-cased \<open>String(value)\<close>.
\<close>
theorem applyFilters_semantics:
  "fst (applyFilters this conds)
     = filter (\<lambda>row. \<forall>c \<in> set conds. conditionHolds row c) (rows (dataset this))
   \<and> fst (applyFilters this []) = rows (dataset this)
   \<and> (operator c = ''>'' \<longrightarrow>
        conditionHolds row c
          = num_greater (Number (getProp row (column c))) (Number (cond_value c)))
   \<and> (operator c = ''<'' \<longrightarrow>
        conditionHolds row c
          = num_less (Number (getProp row (column c))) (Number (cond_value c)))
   \<and> (operator c = ''>='' \<longrightarrow>
        conditionHolds row c
          = num_ge (Number (getProp row (column c))) (Number (cond_value c)))
   \<and> (operator c = ''<='' \<longrightarrow>
        conditionHolds row c
          = num_le (Number (getProp row (column c))) (Number (cond_value c)))
   \<and> (operator c = ''='' \<longrightarrow>
        conditionHolds row c
          = includesStr (toLowerCase (String (getProp row (column c))))
              (toLowerCase (String (cond_value c))))"
proof -
  have a: "fst (applyFilters this conds)
     = filter (\<lambda>row. \<forall>c \<in> set conds. conditionHolds row c) (rows (dataset this))"
    by (simp add: applyFilters_def list_all_iff)
  have b: "fst (applyFilters this []) = rows (dataset this)"
    by (simp add: applyFilters_def)
  have c: "operator c = ''>'' \<longrightarrow>
        conditionHolds row c
          = num_greater (Number (getProp row (column c))) (Number (cond_value c))"
    by (simp add: conditionHolds_def)
  have d: "operator c = ''<'' \<longrightarrow>
        conditionHolds row c
          = num_less (Number (getProp row (column c))) (Number (cond_value c))"
    by (simp add: conditionHolds_def)
  have e: "operator c = ''>='' \<longrightarrow>
        conditionHolds row c
          = num_ge (Number (getProp row (column c))) (Number (cond_value c))"
    by (simp add: conditionHolds_def)
  have f: "operator c = ''<='' \<longrightarrow>
        conditionHolds row c
          = num_le (Number (getProp row (column c))) (Number (cond_value c))"
    by (simp add: conditionHolds_def)
  have g: "operator c = ''='' \<longrightarrow>
        conditionHolds row c
          = includesStr (toLowerCase (String (getProp row (column c))))
              (toLowerCase (String (cond_value c)))"
    by (simp add: conditionHolds_def)
  from a b c d e f g show ?thesis by blast
qed

text \<open>Witness for C6: \<open>city = york\<close> holds on \<open>New York\<close> by containment,
  \<open>age > 30\<close> compares the text \<open>"31"\<close> as a number, and both together keep the first row
  only.\<close>
theorem applyFilters_semantics_witness:
  "operator \<lparr>column = ''city'', operator = ''='', cond_value = JStr ''york''\<rparr> = ''=''
   \<and> conditionHolds [''city'' \<mapsto> JStr ''New York'', ''age'' \<mapsto> JStr ''31'']
        \<lparr>column = ''city'', operator = ''='', cond_value = JStr ''york''\<rparr>
   \<and> operator \<lparr>column = ''age'', operator = ''>'', cond_value = JNum (Fin 30)\<rparr> = ''>''
   \<and> conditionHolds [''city'' \<mapsto> JStr ''New York'', ''age'' \<mapsto> JStr ''31'']
        \<lparr>column = ''age'', operator = ''>'', cond_value = JNum (Fin 30)\<rparr>
   \<and> fst (applyFilters
        \<lparr>dataset = \<lparr>columns = [], 
            rows = [[''city'' \<mapsto> JStr ''New York'', ''age'' \<mapsto> JStr ''31''],
                    [''city'' \<mapsto> JStr ''Yorkton'', ''age'' \<mapsto> JStr ''30'']],
            fileName = ''f.xlsx''\<rparr>\<rparr>
        [\<lparr>column = ''city'', operator = ''='', cond_value = JStr ''york''\<rparr>,
         \<lparr>column = ''age'', operator = ''>'', cond_value = JNum (Fin 30)\<rparr>])
      = [[''city'' \<mapsto> JStr ''New York'', ''age'' \<mapsto> JStr ''31'']]"
proof -
  let ?r1 = "[''city'' \<mapsto> JStr ''New York'', ''age'' \<mapsto> JStr ''31'']"
  let ?r2 = "[''city'' \<mapsto> JStr ''Yorkton'', ''age'' \<mapsto> JStr ''30'']"
  let ?c1 = "\<lparr>column = ''city'', operator = ''='', cond_value = JStr ''york''\<rparr>"
  let ?c2 = "\<lparr>column = ''age'', operator = ''>'', cond_value = JNum (Fin 30)\<rparr>"
  have n31: "Number (JStr ''31'') = Fin 31" by code_simp
  have n30: "Number (JStr ''30'') = Fin 30" by code_simp
  have i1: "includesStr (toLowerCase ''New York'') (toLowerCase ''york'')" by code_simp
  have i2: "includesStr (toLowerCase ''Yorkton'') (toLowerCase ''york'')" by code_simp
  have h11: "conditionHolds ?r1 ?c1"
    using applyFilters_semantics [of _ _ ?c1 ?r1] i1 by (simp add: getProp_def)
  have h12: "conditionHolds ?r1 ?c2"
    using applyFilters_semantics [of _ _ ?c2 ?r1] n31 by (simp add: getProp_def num_greater_def)
  have h22: "\<not> conditionHolds ?r2 ?c2"
    using applyFilters_semantics [of _ _ ?c2 ?r2] n30 by (simp add: getProp_def num_greater_def)
  show ?thesis
    using applyFilters_semantics [of "\<lparr>dataset = \<lparr>columns = [], rows = [?r1, ?r2],
            fileName = ''f.xlsx''\<rparr>\<rparr>" "[?c1, ?c2]"] h11 h12 h22
    by simp
qed

text \<open>
  Claim C7. With \<open>m\<close> the rows that satisfy the extracted conditions (a subsequence of the
  dataset's rows): when \<open>m\<close> is empty the Filter handler returns the text
  \<open>No records match your filter criteria.\<close> and no table; otherwise it returns a table
  whose headers are all column names and whose rows are the first ten rows of \<open>m\<close>, in
  order (at least one, at most ten), with the lead-in \<open>Found <length of m> matching records:\<close>.
\<close>
theorem handleFilterQuery_result:
  "(fst (applyFilters this (fst (extractConditions this query))) = [] \<longrightarrow>
      fst (handleFilterQuery this query) = textResult ''No records match your filter criteria.''
      \<and> result_type (fst (handleFilterQuery this query)) = TextResult
      \<and> table (fst (handleFilterQuery this query)) = None)
   \<and> (fst (applyFilters this (fst (extractConditions this query))) \<noteq> [] \<longrightarrow>
      result_type (fst (handleFilterQuery this query)) = TableResult
      \<and> content (fst (handleFilterQuery this query))
          = ''Found ''
            @ natToString (length (fst (applyFilters this (fst (extractConditions this query)))))
            @ '' matching records:''
      \<and> table (fst (handleFilterQuery this query))
          = Some \<lparr>headers = map name (columns (dataset this)),
                  table_rows =
                    map (\<lambda>row. map (\<lambda>header. js_or (getProp row header) (JStr []))
                                  (map name (columns (dataset this))))
                      (take 10 (fst (applyFilters this (fst (extractConditions this query))))),
                  title = ''Filtered Results''\<rparr>
      \<and> length (table_rows (the (table (fst (handleFilterQuery this query))))) \<le> 10
      \<and> table_rows (the (table (fst (handleFilterQuery this query)))) \<noteq> [])
   \<and> subseq (fst (applyFilters this (fst (extractConditions this query))))
        (rows (dataset this))"
proof -
  let ?m = "fst (applyFilters this (fst (extractConditions this query)))"
  have e: "extractConditions this query = (fst (extractConditions this query), this)"
    by (simp add: extractConditions_def Let_def)
  have a: "applyFilters this (fst (extractConditions this query)) = (?m, this)"
    by (simp add: applyFilters_def)
  have h: "handleFilterQuery this query =
     (if length ?m = 0 then (textResult ''No records match your filter criteria.'', this)
      else (\<lparr>result_type = TableResult,
              content = ''Found '' @ natToString (length ?m) @ '' matching records:'',
              chart = None,
              table = Some \<lparr>headers = map name (columns (dataset this)),
                  table_rows =
                    map (\<lambda>row. map (\<lambda>header. js_or (getProp row header) (JStr []))
                                  (map name (columns (dataset this))))
                      (take 10 ?m),
                  title = ''Filtered Results''\<rparr>\<rparr>, this))"
    unfolding handleFilterQuery_def
    by (subst e, simp only: Let_def split_conv, subst a, simp only: Let_def split_conv)
  have s: "subseq ?m (rows (dataset this))"
    by (simp add: applyFilters_def)
  have t: "?m = [] \<longrightarrow>
      fst (handleFilterQuery this query) = textResult ''No records match your filter criteria.''
      \<and> result_type (fst (handleFilterQuery this query)) = TextResult
      \<and> table (fst (handleFilterQuery this query)) = None"
    by (simp add: h textResult_def)
  have u: "?m \<noteq> [] \<longrightarrow>
      result_type (fst (handleFilterQuery this query)) = TableResult
      \<and> content (fst (handleFilterQuery this query))
          = ''Found '' @ natToString (length ?m) @ '' matching records:''
      \<and> table (fst (handleFilterQuery this query))
          = Some \<lparr>headers = map name (columns (dataset this)),
                  table_rows =
                    map (\<lambda>row. map (\<lambda>header. js_or (getProp row header) (JStr []))
                                  (map name (columns (dataset this))))
                      (take 10 ?m),
                  title = ''Filtered Results''\<rparr>
      \<and> length (table_rows (the (table (fst (handleFilterQuery this query))))) \<le> 10
      \<and> table_rows (the (table (fst (handleFilterQuery this query)))) \<noteq> []"
    by (simp add: h)
  from t u s show ?thesis by blast
qed

text \<open>Witness for C7: of eleven rows none has \<open>n > 50\<close>; all have \<open>n > 0\<close>, the
  lead-in says eleven and the table shows ten.\<close>
theorem handleFilterQuery_result_witness:
  "fst (applyFilters eleven_rows (fst (extractConditions eleven_rows ''filter where n > 50''))) = []
   \<and> fst (handleFilterQuery eleven_rows ''filter where n > 50'')
       = textResult ''No records match your filter criteria.''
   \<and> fst (applyFilters eleven_rows (fst (extractConditions eleven_rows ''filter where n > 0''))) \<noteq> []
   \<and> length (fst (applyFilters eleven_rows
                    (fst (extractConditions eleven_rows ''filter where n > 0'')))) = 11
   \<and> content (fst (handleFilterQuery eleven_rows ''filter where n > 0''))
       = ''Found 11 matching records:''
   \<and> headers (the (table (fst (handleFilterQuery eleven_rows ''filter where n > 0'')))) = [''n'']
   \<and> length (table_rows (the (table (fst (handleFilterQuery eleven_rows
                                             ''filter where n > 0''))))) = 10"
proof -
  let ?m0 = "fst (applyFilters eleven_rows (fst (extractConditions eleven_rows ''filter where n > 50'')))"
  let ?m1 = "fst (applyFilters eleven_rows (fst (extractConditions eleven_rows ''filter where n > 0'')))"
  have l0: "length ?m0 = 0" by code_simp
  have l1: "length ?m1 = 11" by code_simp
  have e0: "?m0 = []" using l0 by simp
  have n1: "?m1 \<noteq> []" using l1 by auto
  have s11: "natToString 11 = ''11''" by code_simp
  have hd: "map name (columns (dataset eleven_rows)) = [''n'']"
    by (simp add: eleven_rows_def)
  note t0 = handleFilterQuery_result [of eleven_rows "''filter where n > 50''",
      THEN conjunct1, rule_format, OF e0]
  note t1 = handleFilterQuery_result [of eleven_rows "''filter where n > 0''",
      THEN conjunct2, THEN conjunct1, rule_format, OF n1]
  have a: "fst (handleFilterQuery eleven_rows ''filter where n > 50'')
       = textResult ''No records match your filter criteria.''"
    using t0 by (rule conjunct1)
  have b: "content (fst (handleFilterQuery eleven_rows ''filter where n > 0''))
       = ''Found 11 matching records:''"
    using t1 [THEN conjunct2, THEN conjunct1] by (simp only: l1 s11) simp
  have tb: "table (fst (handleFilterQuery eleven_rows ''filter where n > 0''))
          = Some \<lparr>headers = map name (columns (dataset eleven_rows)),
                  table_rows =
                    map (\<lambda>row. map (\<lambda>header. js_or (getProp row header) (JStr []))
                                  (map name (columns (dataset eleven_rows))))
                      (take 10 ?m1),
                  title = ''Filtered Results''\<rparr>"
    using t1 [THEN conjunct2, THEN conjunct2, THEN conjunct1] .
  have c: "headers (the (table (fst (handleFilterQuery eleven_rows ''filter where n > 0'')))) = [''n'']"
    by (simp add: tb hd)
  have d: "length (table_rows (the (table (fst (handleFilterQuery eleven_rows
                                             ''filter where n > 0''))))) = 10"
    by (simp add: tb l1)
  from e0 a n1 l1 b c d show ?thesis by (intro conjI)
qed

section \<open>Condition extraction on \<open>is\<close> and \<open>equals\<close>\<close>

text \<open>The first pattern has three groups, and the loop reads them as meant:
  \<open>age > 30\<close> on a number column is the condition \<open>{age, >, 30}\<close>.\<close>

lemma comparison_pattern_reads_groups:
  "fst (extractConditions
     \<lparr>dataset = \<lparr>columns = [\<lparr>name = ''age'', type = TNumber,
                              values = [JNum (Fin 30), JNum (Fin 41)]\<rparr>],
                 rows = [[''age'' \<mapsto> JNum (Fin 30)], [''age'' \<mapsto> JNum (Fin 41)]],
                 fileName = ''staff.xlsx''\<rparr>\<rparr>
     ''age > 30'')
   = [\<lparr>column = ''age'', operator = ''>'', cond_value = JNum (Fin 30)\<rparr>]"
  by code_simp


text \<open>
  Claim C5 on the code. The second and third pattern capture two groups, and the loop reads
  a match as \<open>[, column, operator, value]\<close>: the second token lands in \<open>operator\<close> and
  \<open>value\<close> is \<open>undefined\<close>. For \<open>where status is active\<close> the condition has operator
  \<open>active\<close> and value \<open>undefined\<close>; for \<open>where age equals 30\<close> on a number column, operator
  \<open>30\<close> and value \<open>NaN\<close>; and the filter \<open>where status is active\<close> finds no record although
  one row has that status.
\<close>
theorem is_pattern_misreads_groups:
  "fst (extractConditions
     \<lparr>dataset = \<lparr>columns = [\<lparr>name = ''status'', type = TString,
                              values = [JStr ''active'', JStr ''idle'']\<rparr>,
                            \<lparr>name = ''age'', type = TNumber,
                              values = [JNum (Fin 30), JNum (Fin 41)]\<rparr>],
                 rows = [[''status'' \<mapsto> JStr ''active'', ''age'' \<mapsto> JNum (Fin 30)],
                         [''status'' \<mapsto> JStr ''idle'', ''age'' \<mapsto> JNum (Fin 41)]],
                 fileName = ''staff.xlsx''\<rparr>\<rparr>
     ''where status is active'')
   = [\<lparr>column = ''status'', operator = ''active'', cond_value = JUndefined\<rparr>]
   \<and> fst (extractConditions
     \<lparr>dataset = \<lparr>columns = [\<lparr>name = ''status'', type = TString,
                              values = [JStr ''active'', JStr ''idle'']\<rparr>,
                            \<lparr>name = ''age'', type = TNumber,
                              values = [JNum (Fin 30), JNum (Fin 41)]\<rparr>],
                 rows = [[''status'' \<mapsto> JStr ''active'', ''age'' \<mapsto> JNum (Fin 30)],
                         [''status'' \<mapsto> JStr ''idle'', ''age'' \<mapsto> JNum (Fin 41)]],
                 fileName = ''staff.xlsx''\<rparr>\<rparr>
     ''where age equals 30'')
   = [\<lparr>column = ''age'', operator = ''30'', cond_value = JNum NaN\<rparr>]
   \<and> fst (handleFilterQuery
     \<lparr>dataset = \<lparr>columns = [\<lparr>name = ''status'', type = TString,
                              values = [JStr ''active'', JStr ''idle'']\<rparr>,
                            \<lparr>name = ''age'', type = TNumber,
                              values = [JNum (Fin 30), JNum (Fin 41)]\<rparr>],
                 rows = [[''status'' \<mapsto> JStr ''active'', ''age'' \<mapsto> JNum (Fin 30)],
                         [''status'' \<mapsto> JStr ''idle'', ''age'' \<mapsto> JNum (Fin 41)]],
                 fileName = ''staff.xlsx''\<rparr>\<rparr>
     ''where status is active'')
   = textResult ''No records match your filter criteria.''"
  by code_simp

section \<open>Histograms\<close>

text \<open>
  What the histogram does keep. The counts of the bins add up to the number of coerced
  values, whatever the column. On exact numbers, when the coerced values are finite and not
  all equal, every value has a whole bin index between \<open>0\<close> and \<open>9\<close>, and the maximum has
  index \<open>9\<close>.
\<close>

lemma addCount_total: "sum_list (map snd (addCount k kvs)) = Suc (sum_list (map snd kvs))"
  by (induction kvs) auto

lemma fold_addCount_total:
  "sum_list (map snd (foldl (\<lambda>bins v. addCount (f v) bins) init vs))
     = sum_list (map snd init) + length vs"
  by (induction vs arbitrary: init) (simp_all add: addCount_total)

lemma insort_key_total:
  "sum_list (map snd (insort_key f x xs)) = snd x + sum_list (map snd xs)"
  for x :: "string \<times> nat"
  by (induction xs) auto

lemma sort_key_total:
  "sum_list (map snd (sort_key f xs)) = sum_list (map snd xs)"
  for xs :: "(string \<times> nat) list"
  by (induction xs) (simp_all add: insort_key_total)

lemma partition_total:
  "sum_list (map snd (filter P xs)) + sum_list (map snd (filter (\<lambda>x. \<not> P x) xs))
     = sum_list (map snd xs)"
  for xs :: "(string \<times> nat) list"
  by (induction xs) auto

lemma Object_entries_total:
  "sum_list (map snd (Object_entries obj)) = sum_list (map snd obj)"
  for obj :: "(string \<times> nat) list"
  using partition_total [of "\<lambda>(k, v). isArrayIndex k" obj]
  by (simp add: Object_entries_def sort_key_total case_prod_unfold)

lemma histogram_counts_total:
  assumes "find (\<lambda>col. name col = columnName) (columns (dataset this)) = Some col"
  shows "map_option (\<lambda>ch. sum_list (map pt_count (data ch)))
           (chart (fst (createNumericChart this columnName chartType)))
         = Some (length (coerced (values col)))"
proof -
  have "sum_list (map pt_count
          (map (\<lambda>(range, cnt). \<lparr>pt_name = range, pt_count = cnt, pt_average = None,
                                  pt_value = num_of_nat cnt\<rparr>) entries))
        = sum_list (map snd entries)" for entries :: "(string \<times> nat) list"
    by (induction entries) auto
  with assms show ?thesis
    by (simp add: createNumericChart_def Let_def Object_entries_total fold_addCount_total)
qed

lemma foldl_max_Fin:
  "foldl Math_max2 (Fin a) (map Fin rs) = Fin (Max (insert a (set rs)))"
proof (induction rs arbitrary: a)
  case Nil
  then show ?case by simp
next
  case (Cons r rs)
  have "Math_max2 (Fin a) (Fin r) = Fin (max a r)"
    by (simp add: Math_max2_def max_def)
  moreover have "Max (insert (max a r) (set rs)) = Max (insert a (insert r (set rs)))"
    by (cases "set rs = {}") (simp_all add: max.assoc)
  ultimately show ?case using Cons.IH [of "max a r"] by simp
qed

lemma foldl_min_Fin:
  "foldl Math_min2 (Fin a) (map Fin rs) = Fin (Min (insert a (set rs)))"
proof (induction rs arbitrary: a)
  case Nil
  then show ?case by simp
next
  case (Cons r rs)
  have "Math_min2 (Fin a) (Fin r) = Fin (min a r)"
    by (auto simp: Math_min2_def min_def)
  moreover have "Min (insert (min a r) (set rs)) = Min (insert a (insert r (set rs)))"
    by (cases "set rs = {}") (simp_all add: min.assoc)
  ultimately show ?case using Cons.IH [of "min a r"] by simp
qed

lemma Math_max_Fin: "rs \<noteq> [] \<Longrightarrow> Math_max (map Fin rs) = Fin (Max (set rs))"
  by (cases rs) (simp_all add: Math_max_def Math_max2_def foldl_max_Fin)

lemma Math_min_Fin: "rs \<noteq> [] \<Longrightarrow> Math_min (map Fin rs) = Fin (Min (set rs))"
  by (cases rs) (simp_all add: Math_min_def Math_min2_def foldl_min_Fin)

lemma binIndex_Fin:
  assumes "m < M"
  shows "binIndex (Fin m) (num_div (num_sub (Fin M) (Fin m)) (Fin 10)) (Fin v)
         = Fin (of_int (min \<lfloor>(v - m) / ((M - m) / 10)\<rfloor> 9))"
proof -
  from assms have nz: "(M - m) / 10 \<noteq> 0" by simp
  have "Math_min2 (Fin (of_int j)) (Fin 9) = Fin (of_int (min j 9))" for j :: int
    by (auto simp: Math_min2_def min_def)
  with nz show ?thesis
    by (simp add: binIndex_def num_sub_def)
qed

lemma histogram_bins_of_range:
  assumes "rs \<noteq> []" and "Min (set rs) < Max (set rs)"
  defines "mn \<equiv> Math_min (map Fin rs)"
    and "binSize \<equiv> num_div (num_sub (Math_max (map Fin rs)) (Math_min (map Fin rs))) (Fin 10)"
  shows "binIndex mn binSize (Math_max (map Fin rs)) = Fin 9"
    and "\<forall>r \<in> set rs. \<exists>j. binIndex mn binSize (Fin r) = Fin (of_int j) \<and> 0 \<le> j \<and> j \<le> 9"
proof -
  let ?m = "Min (set rs)" and ?M = "Max (set rs)"
  have mn: "mn = Fin ?m" and mx: "Math_max (map Fin rs) = Fin ?M"
    and bs: "binSize = num_div (num_sub (Fin ?M) (Fin ?m)) (Fin 10)"
    using assms(1) by (simp_all add: mn_def binSize_def Math_min_Fin Math_max_Fin)
  have w: "0 < (?M - ?m) / 10" using assms(2) by simp
  have "d / (d / 10) = 10" if "d \<noteq> 0" for d :: rat
    using that by simp
  from this [of "?M - ?m"] have "(?M - ?m) / ((?M - ?m) / 10) = 10"
    using assms(2) by simp
  then show "binIndex mn binSize (Math_max (map Fin rs)) = Fin 9"
    unfolding mn mx bs binIndex_Fin [OF assms(2)] by simp
  show "\<forall>r \<in> set rs. \<exists>j. binIndex mn binSize (Fin r) = Fin (of_int j) \<and> 0 \<le> j \<and> j \<le> 9"
  proof
    fix r assume "r \<in> set rs"
    then have "?m \<le> r" by simp
    with w have "0 \<le> (r - ?m) / ((?M - ?m) / 10)" by simp
    then have "0 \<le> \<lfloor>(r - ?m) / ((?M - ?m) / 10)\<rfloor>" by simp
    then have "0 \<le> min \<lfloor>(r - ?m) / ((?M - ?m) / 10)\<rfloor> 9
               \<and> min \<lfloor>(r - ?m) / ((?M - ?m) / 10)\<rfloor> 9 \<le> 9" by simp
    then show "\<exists>j. binIndex mn binSize (Fin r) = Fin (of_int j) \<and> 0 \<le> j \<and> j \<le> 9"
      unfolding mn bs binIndex_Fin [OF assms(2)] by blast
  qed
qed


text \<open>
  Claim C8 on the code. For a column whose values are all \<open>5\<close> the range is empty, the bin
  size is \<open>0\<close>, the bin index \<open>min(floor(0 / 0), 9)\<close> is \<open>NaN\<close>, and the three values are
  counted in one bin labelled \<open>NaN-NaN\<close>.
\<close>
theorem constant_column_histogram:
  "binIndex (Fin 5) (Fin 0) (Fin 5) = NaN
   \<and> fst (createNumericChart
     \<lparr>dataset = \<lparr>columns = [\<lparr>name = ''x'', type = TNumber,
                              values = [JNum (Fin 5), JNum (Fin 5), JNum (Fin 5)]\<rparr>],
                 rows = [[''x'' \<mapsto> JNum (Fin 5)], [''x'' \<mapsto> JNum (Fin 5)],
                         [''x'' \<mapsto> JNum (Fin 5)]],
                 fileName = ''f.xlsx''\<rparr>\<rparr>
     ''x'' Bar)
   = \<lparr>result_type = ChartResult, content = ''Distribution of x:'',
      chart = Some \<lparr>chart_type = Bar,
                    data = [\<lparr>pt_name = ''NaN-NaN'', pt_count = 3, pt_average = None,
                             pt_value = Fin 3\<rparr>],
                    xKey = ''name'', yKey = ''count'', chart_title = ''x Distribution''\<rparr>,
      table = None\<rparr>"
  by code_simp

end
